theory Spec2Isabelle
  imports Main "HOL-Library.AList" "HOL-Library.Extended_Nat"
begin

section \<open>CasOC::Transcription (CasOCTranscription.h)\<close>

text \<open>
  A shallow embedding of the base class \<^verbatim>\<open>CasOC::Transcription\<close>: the flatten/expand
  codec, \<^verbatim>\<open>createTimes\<close>, \<^verbatim>\<open>setVariableBounds\<close> and \<^verbatim>\<open>solve\<close>.

  The header takes its types from \<^verbatim>\<open>CasOCSolver.h\<close> and from the CasADi library.
  They enter the model as follows.
  \<^item> \<^verbatim>\<open>enum Var\<close>: a type parameter \<open>'k\<close> of sort \<open>linorder\<close>; \<^verbatim>\<open>std::sort\<close> on
    the keys uses the built-in \<open><\<close> of the enumeration, a total order.
  \<^item> \<^verbatim>\<open>Variables<T>\<close> (an unordered map from \<^verbatim>\<open>Var\<close> to \<open>T\<close>): an association list.
    The order of the list is the order in which the container iterates, which the
    language leaves open; the keys of a map are distinct.
  \<^item> \<^verbatim>\<open>casadi::DM\<close> and \<^verbatim>\<open>casadi::MX\<close>: a matrix given by its two dimensions and its
    entries in column-major order. The scalar type is a parameter: the numbers of
    a \<^verbatim>\<open>DM\<close>, the symbolic entries of an \<^verbatim>\<open>MX\<close>. Sparsity patterns are not modelled.
  \<^item> \<^verbatim>\<open>Iterate::resample\<close>, \<^verbatim>\<open>Problem::createIterate\<close> and the solver backend behind
    \<^verbatim>\<open>casadi::nlpsol\<close>: functions that \<^verbatim>\<open>solve\<close> receives as parameters.
\<close>

subsection \<open>Errors\<close>

datatype error =
    KeyNotFound          \<comment> \<open>\<^verbatim>\<open>std::out_of_range\<close> of \<^verbatim>\<open>at()\<close>\<close>
  | IndexOutOfBounds     \<comment> \<open>CasADi: an index or a slice beyond the matrix\<close>
  | DimensionMismatch    \<comment> \<open>CasADi: shapes that do not fit\<close>
  | ResampleFailed       \<comment> \<open>thrown by \<^verbatim>\<open>Iterate::resample\<close>\<close>
  | SolverFailed         \<comment> \<open>thrown by the NLP solver backend\<close>

subsection \<open>Matrices\<close>

record 'a matrix =
  rows :: nat
  columns :: nat
  elems :: "'a list"

definition numel :: "'a matrix \<Rightarrow> nat" where
  "numel m = rows m * columns m"

text \<open>The storage of a matrix holds one entry for each of its \<open>numel\<close> positions.\<close>

definition well_formed :: "'a matrix \<Rightarrow> bool" where
  "well_formed m \<longleftrightarrow> length (elems m) = numel m"

definition is_scalar :: "'a matrix \<Rightarrow> bool" where
  "is_scalar m \<longleftrightarrow> numel m = 1"

text \<open>The entry in row \<open>r\<close> and column \<open>c\<close> (column-major storage).\<close>

definition entry :: "'a matrix \<Rightarrow> nat \<Rightarrow> nat \<Rightarrow> 'a" where
  "entry m r c = elems m ! (r + c * rows m)"

text \<open>
  \<^verbatim>\<open>T::veccat(v)\<close>: every matrix is vectorised (its columns stacked) and the vectors
  are stacked into one column vector.
\<close>

definition veccat :: "'a matrix list \<Rightarrow> 'a matrix" where
  "veccat ms = \<lparr>rows = sum_list (map numel ms), columns = 1, elems = concat (map elems ms)\<rparr>"

text \<open>
  \<^verbatim>\<open>x(Slice(start, stop))\<close>: linear indexing with a slice of step one. CasADi rejects a
  slice whose end lies beyond the number of entries.
\<close>

definition slice :: "'a matrix \<Rightarrow> nat \<Rightarrow> nat \<Rightarrow> error + 'a matrix" where
  "slice x start stop =
     (if stop \<le> numel x
      then Inr \<lparr>rows = stop - start, columns = 1,
                elems = take (stop - start) (drop start (elems x))\<rparr>
      else Inl IndexOutOfBounds)"

text \<open>\<^verbatim>\<open>DM::reshape(x, r, c)\<close>: the same entries in column-major order, in a new shape.\<close>

definition reshape :: "'a matrix \<Rightarrow> nat \<Rightarrow> nat \<Rightarrow> error + 'a matrix" where
  "reshape x r c =
     (if numel x = r * c then Inr \<lparr>rows = r, columns = c, elems = elems x\<rparr>
      else Inl DimensionMismatch)"

subsection \<open>Variable maps and the flatten/expand codec\<close>

type_synonym ('k, 'a) Variables = "('k \<times> 'a matrix) list"

text \<open>The invariant of the container: no key occurs twice.\<close>

definition is_map :: "('k \<times> 'v) list \<Rightarrow> bool" where
  "is_map vars \<longleftrightarrow> distinct (map fst vars)"

text \<open>\<^verbatim>\<open>vars.at(key)\<close> throws when the key is absent.\<close>

definition at_key :: "('k \<times> 'v) list \<Rightarrow> 'k \<Rightarrow> error + 'v" where
  "at_key vars key = (case map_of vars key of None \<Rightarrow> Inl KeyNotFound | Some v \<Rightarrow> Inr v)"

definition getSortedVarKeys :: "('k::linorder \<times> 'v) list \<Rightarrow> 'k list" where
  "getSortedVarKeys vars = sort (map fst vars)"

text \<open>
  \<^verbatim>\<open>flatten\<close> reads \<^verbatim>\<open>vars.at(key)\<close> at keys taken from \<open>vars\<close> itself, so the lookup
  never misses (lemma \<open>flatten_lookup_defined\<close> below).
\<close>

definition flatten :: "('k::linorder, 'a) Variables \<Rightarrow> 'a matrix" where
  "flatten vars = veccat (map (\<lambda>key. the (map_of vars key)) (getSortedVarKeys vars))"

text \<open>
  The loop of \<^verbatim>\<open>expand\<close>: \<open>vars\<close> is \<^verbatim>\<open>m_vars\<close>, \<open>offset\<close> and \<open>out\<close> are the loop's
  variables. \<^verbatim>\<open>out[key] = ...\<close> adds the key or replaces its block.
\<close>

fun expand_loop ::
  "('k, 'e) Variables \<Rightarrow> 'a matrix \<Rightarrow> 'k list \<Rightarrow> nat \<Rightarrow> ('k, 'a) Variables
     \<Rightarrow> error + ('k, 'a) Variables" where
  "expand_loop vars x [] offset out = Inr out"
| "expand_loop vars x (key # keys) offset out =
     (let val = the (map_of vars key) in
      case slice x offset (offset + numel val) of
        Inl e \<Rightarrow> Inl e
      | Inr part \<Rightarrow>
          (case reshape part (rows val) (columns val) of
             Inl e \<Rightarrow> Inl e
           | Inr block \<Rightarrow>
               expand_loop vars x keys (offset + numel val) (AList.update key block out)))"

text \<open>\<^verbatim>\<open>expand\<close> is a \<^verbatim>\<open>const\<close> member; the only member it reads is \<^verbatim>\<open>m_vars\<close>.\<close>

definition expand :: "('k::linorder, 'e) Variables \<Rightarrow> 'a matrix \<Rightarrow> error + ('k, 'a) Variables" where
  "expand m_vars x = expand_loop m_vars x (getSortedVarKeys m_vars) 0 []"

subsection \<open>Arithmetic on matrices and \<^verbatim>\<open>createTimes\<close>\<close>

definition scalar :: "'a \<Rightarrow> 'a matrix" where
  "scalar a = \<lparr>rows = 1, columns = 1, elems = [a]\<rparr>"

text \<open>
  A binary operation of CasADi: a scalar operand is combined with every entry of
  the other operand, two operands of one shape are combined entry by entry, and
  other shapes are rejected. (A well-formed scalar holds exactly one entry.)
\<close>

definition binary :: "('a \<Rightarrow> 'a \<Rightarrow> 'a) \<Rightarrow> 'a matrix \<Rightarrow> 'a matrix \<Rightarrow> error + 'a matrix" where
  "binary f x y =
     (if is_scalar x then Inr (y\<lparr>elems := map (f (hd (elems x))) (elems y)\<rparr>)
      else if is_scalar y then Inr (x\<lparr>elems := map (\<lambda>a. f a (hd (elems y))) (elems x)\<rparr>)
      else if rows x = rows y \<and> columns x = columns y
        then Inr (x\<lparr>elems := map2 f (elems x) (elems y)\<rparr>)
      else Inl DimensionMismatch)"

text \<open>
  \<^verbatim>\<open>return (finalTime - initialTime) * m_grid + initialTime;\<close> with \<open>T = casadi::DM\<close>.
  The only member it reads is \<^verbatim>\<open>m_grid\<close>.
\<close>

definition createTimes ::
  "'a::{plus,minus,times} matrix \<Rightarrow> 'a matrix \<Rightarrow> 'a matrix \<Rightarrow> error + 'a matrix" where
  "createTimes m_grid initialTime finalTime =
     (case binary (-) finalTime initialTime of
        Inl e \<Rightarrow> Inl e
      | Inr duration \<Rightarrow>
          (case binary (*) duration m_grid of
             Inl e \<Rightarrow> Inl e
           | Inr scaled \<Rightarrow> binary (+) scaled initialTime))"

subsection \<open>Indexing and assignment to a region of a matrix\<close>

text \<open>
  The row and column arguments of \<^verbatim>\<open>setVariableBounds\<close> are whatever CasADi accepts
  as an index: a single index, a slice \<^verbatim>\<open>Slice(start, stop)\<close>, or the full slice
  \<^verbatim>\<open>Slice()\<close>. A negative position counts from the end.
\<close>

datatype index = Index int | Slice int int | SliceAll

fun resolve :: "nat \<Rightarrow> index \<Rightarrow> error + nat list" where
  "resolve len (Index i) =
     (if - int len \<le> i \<and> i < int len
      then Inr [nat (if i < 0 then i + int len else i)]
      else Inl IndexOutOfBounds)"
| "resolve len (Slice start stop) =
     (let s = (if start < 0 then start + int len else start);
          e = (if stop < 0 then stop + int len else stop)
      in if e \<le> int len \<and> 0 \<le> s then Inr (map nat [s..e - 1]) else Inl IndexOutOfBounds)"
| "resolve len SliceAll = Inr [0..<len]"

text \<open>Every entry whose row is among \<open>rs\<close> and whose column is among \<open>cs\<close> becomes \<open>v\<close>.\<close>

definition assign :: "'a matrix \<Rightarrow> nat list \<Rightarrow> nat list \<Rightarrow> 'a \<Rightarrow> 'a matrix" where
  "assign m rs cs v =
     m\<lparr>elems := map (\<lambda>i. if i mod rows m \<in> set rs \<and> i div rows m \<in> set cs then v
                          else elems m ! i) [0..<length (elems m)]\<rparr>"

text \<open>
  \<^verbatim>\<open>vars[key]\<close>: the block stored under the key; a key that is absent is first
  inserted with a default-constructed (\<open>0 \<times> 0\<close>) matrix.
\<close>

definition empty_DM :: "'a matrix" where
  "empty_DM = \<lparr>rows = 0, columns = 0, elems = []\<rparr>"

definition subscript :: "('k, 'a) Variables \<Rightarrow> 'k \<Rightarrow> 'a matrix \<times> ('k, 'a) Variables" where
  "subscript vars key =
     (case map_of vars key of
        Some m \<Rightarrow> (m, vars)
      | None \<Rightarrow> (empty_DM, vars @ [(key, empty_DM)]))"

text \<open>\<^verbatim>\<open>vars[var](rowIndices, columnIndices) = v;\<close>\<close>

definition assign_region ::
  "('k, 'a) Variables \<Rightarrow> 'k \<Rightarrow> index \<Rightarrow> index \<Rightarrow> 'a \<Rightarrow> error + ('k, 'a) Variables" where
  "assign_region vars var rowIndices columnIndices v =
     (case subscript vars var of
        (m, vars') \<Rightarrow>
          (case resolve (rows m) rowIndices of
             Inl e \<Rightarrow> Inl e
           | Inr rs \<Rightarrow>
               (case resolve (columns m) columnIndices of
                  Inl e \<Rightarrow> Inl e
                | Inr cs \<Rightarrow> Inr (AList.update var (assign m rs cs v) vars'))))"

subsection \<open>The class\<close>

text \<open>
  \<^verbatim>\<open>casadi::Dict\<close> maps option names to values; a value may itself be a dictionary.
  The other kinds of values are a type parameter.
\<close>

datatype 'v GenericType = Value 'v | Dict "(string \<times> 'v GenericType) list"

type_synonym 'v Dict = "(string \<times> 'v GenericType) list"

text \<open>What \<^verbatim>\<open>solve\<close> reads of the \<^verbatim>\<open>Solver\<close>: three getters.\<close>

record 'v Solver =
  getPluginOptions :: "'v Dict"
  getOptimSolver :: string
  getSolverOptions :: "'v Dict"

text \<open>
  \<^verbatim>\<open>Bounds\<close>: the two numbers. Its method \<^verbatim>\<open>isSet()\<close> is declared with the struct, in
  another header; it is a parameter of \<^verbatim>\<open>setVariableBounds\<close>.
\<close>

record 'a Bounds =
  lower :: 'a
  upper :: 'a

text \<open>
  \<^verbatim>\<open>Iterate\<close> and \<^verbatim>\<open>Solution\<close>, with the fields that \<^verbatim>\<open>solve\<close> reads and writes. The
  field \<^verbatim>\<open>times\<close> is \<open>times_DM\<close> here (\<open>times\<close> is the multiplication of HOL).
\<close>

record ('k, 'a) Iterate =
  variables :: "('k, 'a) Variables"
  times_DM :: "'a matrix"

record ('k, 'a, 'v) Solution = "('k, 'a) Iterate" +
  stats :: "'v Dict"

record ('k, 'a, 'e, 'v, 'p) Transcription =
  m_solver :: "'v Solver"
  m_problem :: 'p
  m_vars :: "('k, 'e) Variables"
  m_lowerBounds :: "('k, 'a) Variables"
  m_upperBounds :: "('k, 'a) Variables"
  m_numGridPoints :: int
  m_grid :: "'a matrix"
  m_times :: "'e matrix"
  m_duration :: "'e matrix"
  xdot :: "'e matrix"
  qerr :: "'e matrix"
  m_objective :: "'e matrix"
  m_constraints :: "'e matrix list"
  m_constraintsLowerBounds :: "'a matrix list"
  m_constraintsUpperBounds :: "'a matrix list"

subsection \<open>\<^verbatim>\<open>setVariableBounds\<close>\<close>

text \<open>An exception of CasADi leaves the function; the construction is then given up.\<close>

definition setVariableBounds ::
  "('a Bounds \<Rightarrow> bool) \<Rightarrow> 'k \<Rightarrow> index \<Rightarrow> index \<Rightarrow> 'a::{uminus,infinity} Bounds
     \<Rightarrow> ('k, 'a, 'e, 'v, 'p) Transcription \<Rightarrow> error + ('k, 'a, 'e, 'v, 'p) Transcription" where
  "setVariableBounds isSet var rowIndices columnIndices bounds self =
     (if isSet bounds then
        (case assign_region (m_lowerBounds self) var rowIndices columnIndices (lower bounds) of
           Inl e \<Rightarrow> Inl e
         | Inr lowerBounds \<Rightarrow>
             (case assign_region (m_upperBounds self) var rowIndices columnIndices (upper bounds) of
                Inl e \<Rightarrow> Inl e
              | Inr upperBounds \<Rightarrow>
                  Inr (self\<lparr>m_lowerBounds := lowerBounds, m_upperBounds := upperBounds\<rparr>)))
      else
        (case assign_region (m_lowerBounds self) var rowIndices columnIndices (- \<infinity>) of
           Inl e \<Rightarrow> Inl e
         | Inr lowerBounds \<Rightarrow>
             (case assign_region (m_upperBounds self) var rowIndices columnIndices \<infinity> of
                Inl e \<Rightarrow> Inl e
              | Inr upperBounds \<Rightarrow>
                  Inr (self\<lparr>m_lowerBounds := lowerBounds, m_upperBounds := upperBounds\<rparr>))))"

subsection \<open>\<^verbatim>\<open>solve\<close>\<close>

text \<open>
  The collaborators of \<^verbatim>\<open>solve\<close>. \<^verbatim>\<open>nlpsol\<close> builds the solver function from its name,
  the name of the plugin, the problem and the options; the function maps its
  arguments to its results and its statistics. Each of them may throw.
\<close>

record ('k, 'a, 'e, 'v, 'p) Collaborators =
  resample :: "('k, 'a) Iterate \<Rightarrow> 'a matrix \<Rightarrow> error + ('k, 'a) Iterate"
  createIterate :: "'p \<Rightarrow> ('k, 'a, 'v) Solution"
  nlpsol :: "string \<Rightarrow> string \<Rightarrow> (string \<times> 'e matrix) list \<Rightarrow> 'v Dict
               \<Rightarrow> error + ((string \<times> 'a matrix) list
                     \<Rightarrow> error + (string \<times> 'a matrix) list \<times> 'v Dict)"

text \<open>
  What a call of \<^verbatim>\<open>solve\<close> leaves behind: the solution or the exception, the calls
  of \<^verbatim>\<open>casadi::nlpsol\<close> and of the solver function with their arguments, in the
  order in which they were made, and the object itself after the call. No
  statement of \<^verbatim>\<open>solve\<close> assigns to a member: \<^verbatim>\<open>m_solver\<close> and \<^verbatim>\<open>m_problem\<close> are
  \<^verbatim>\<open>const\<close> references, \<^verbatim>\<open>flatten\<close> is static, \<^verbatim>\<open>createTimes\<close> and \<^verbatim>\<open>expand\<close> are
  \<^verbatim>\<open>const\<close>; what is written are the locals \<^verbatim>\<open>guess\<close>, \<^verbatim>\<open>options\<close>, \<^verbatim>\<open>nlp\<close>, \<^verbatim>\<open>nlpFunc\<close>,
  \<^verbatim>\<open>nlpResult\<close> and \<^verbatim>\<open>solution\<close>.
\<close>

record ('k, 'a, 'e, 'v, 'p) solve_run =
  outcome :: "error + ('k, 'a, 'v) Solution"
  constructed :: "(string \<times> string \<times> (string \<times> 'e matrix) list \<times> 'v Dict) list"
  invoked :: "(string \<times> 'a matrix) list list"
  self_after :: "('k, 'a, 'e, 'v, 'p) Transcription"

text \<open>
  Lines 58 to 60: the guess, resampled at the times of the grid between its own
  initial and final time.
\<close>

definition solve_guess ::
  "('k, 'a::{plus,minus,times}, 'e, 'v, 'p) Collaborators \<Rightarrow> 'k \<Rightarrow> 'k
     \<Rightarrow> ('k, 'a, 'e, 'v, 'p) Transcription \<Rightarrow> ('k, 'a) Iterate \<Rightarrow> error + ('k, 'a) Iterate" where
  "solve_guess ext initial_time final_time self guessOrig =
     (case at_key (variables guessOrig) initial_time of
        Inl e \<Rightarrow> Inl e
      | Inr initialTime \<Rightarrow>
          (case at_key (variables guessOrig) final_time of
             Inl e \<Rightarrow> Inl e
           | Inr finalTime \<Rightarrow>
               (case createTimes (m_grid self) initialTime finalTime of
                  Inl e \<Rightarrow> Inl e
                | Inr newTimes \<Rightarrow> resample ext guessOrig newTimes)))"

text \<open>Lines 63 to 66: the options handed to \<^verbatim>\<open>casadi::nlpsol\<close>.\<close>

definition solve_options :: "'v Solver \<Rightarrow> 'v Dict" where
  "solve_options solver =
     (let options = getPluginOptions solver in
      if options \<noteq> []
      then AList.update (getOptimSolver solver) (Dict (getSolverOptions solver)) options
      else options)"

text \<open>Lines 67 to 70: the problem handed to \<^verbatim>\<open>casadi::nlpsol\<close>.\<close>

definition solve_nlp ::
  "('k::linorder, 'a, 'e, 'v, 'p) Transcription \<Rightarrow> (string \<times> 'e matrix) list" where
  "solve_nlp self =
     [(''x'', flatten (m_vars self)),
      (''f'', m_objective self),
      (''g'', veccat (m_constraints self))]"

text \<open>Lines 77 to 81: the arguments of the solver function.\<close>

definition solve_arguments ::
  "('k::linorder, 'a, 'e, 'v, 'p) Transcription \<Rightarrow> ('k, 'a) Iterate \<Rightarrow> (string \<times> 'a matrix) list" where
  "solve_arguments self guess =
     [(''x0'', flatten (variables guess)),
      (''lbx'', flatten (m_lowerBounds self)),
      (''ubx'', flatten (m_upperBounds self)),
      (''lbg'', veccat (m_constraintsLowerBounds self)),
      (''ubg'', veccat (m_constraintsUpperBounds self))]"

text \<open>Lines 82 to 88: the solution built from the results of the solver function.\<close>

definition solve_solution ::
  "('k::linorder, 'a::{plus,minus,times}, 'e, 'v, 'p) Collaborators \<Rightarrow> 'k \<Rightarrow> 'k
     \<Rightarrow> ('k, 'a, 'e, 'v, 'p) Transcription \<Rightarrow> (string \<times> 'a matrix) list \<Rightarrow> 'v Dict
     \<Rightarrow> error + ('k, 'a, 'v) Solution" where
  "solve_solution ext initial_time final_time self nlpResult nlpStats =
     (case at_key nlpResult ''x'' of
        Inl e \<Rightarrow> Inl e
      | Inr x \<Rightarrow>
          (case expand (m_vars self) x of
             Inl e \<Rightarrow> Inl e
           | Inr expanded \<Rightarrow>
               (case subscript expanded initial_time of
                  (initialTime, vars1) \<Rightarrow>
                    (case subscript vars1 final_time of
                       (finalTime, vars2) \<Rightarrow>
                         (case createTimes (m_grid self) initialTime finalTime of
                            Inl e \<Rightarrow> Inl e
                          | Inr newTimes \<Rightarrow>
                              Inr ((createIterate ext (m_problem self))
                                     \<lparr>variables := vars2, times_DM := newTimes,
                                      stats := nlpStats\<rparr>))))))"

definition solve ::
  "('k::linorder, 'a::{plus,minus,times}, 'e, 'v, 'p) Collaborators \<Rightarrow> 'k \<Rightarrow> 'k
     \<Rightarrow> ('k, 'a, 'e, 'v, 'p) Transcription \<Rightarrow> ('k, 'a) Iterate
     \<Rightarrow> ('k, 'a, 'e, 'v, 'p) solve_run" where
  "solve ext initial_time final_time self guessOrig =
     (case solve_guess ext initial_time final_time self guessOrig of
        Inl e \<Rightarrow> \<lparr>outcome = Inl e, constructed = [], invoked = [], self_after = self\<rparr>
      | Inr guess \<Rightarrow>
          (let options = solve_options (m_solver self);
               nlp = solve_nlp self;
               construction = (''nlp'', getOptimSolver (m_solver self), nlp, options)
           in case nlpsol ext ''nlp'' (getOptimSolver (m_solver self)) nlp options of
                Inl e \<Rightarrow>
                  \<lparr>outcome = Inl e, constructed = [construction], invoked = [],
                   self_after = self\<rparr>
              | Inr nlpFunc \<Rightarrow>
                  (let arguments = solve_arguments self guess
                   in case nlpFunc arguments of
                        Inl e \<Rightarrow>
                          \<lparr>outcome = Inl e, constructed = [construction],
                           invoked = [arguments], self_after = self\<rparr>
                      | Inr (nlpResult, nlpStats) \<Rightarrow>
                          \<lparr>outcome = solve_solution ext initial_time final_time self
                                       nlpResult nlpStats,
                           constructed = [construction], invoked = [arguments],
                           self_after = self\<rparr>)))"


subsection \<open>Notions used to state the properties\<close>

text \<open>The blocks stored under a list of keys, in the order of the keys.\<close>

definition stored_blocks :: "('k \<times> 'v) list \<Rightarrow> 'k list \<Rightarrow> 'v list" where
  "stored_blocks vars keys = map (\<lambda>key. the (map_of vars key)) keys"

text \<open>
  Consecutive pieces of a list of entries, one for each stored block, each in the
  shape of its block.
\<close>

fun blocks_from :: "'e matrix list \<Rightarrow> 'a list \<Rightarrow> 'a matrix list" where
  "blocks_from [] xs = []"
| "blocks_from (v # vs) xs =
     \<lparr>rows = rows v, columns = columns v, elems = take (numel v) xs\<rparr>
       # blocks_from vs (drop (numel v) xs)"

text \<open>
  A map of numeric blocks laid out like the variable store: the same keys, and
  under each key a well-formed block of the stored block's dimensions.
\<close>

definition same_layout :: "('k, 'a) Variables \<Rightarrow> ('k, 'e) Variables \<Rightarrow> bool" where
  "same_layout vars mvars \<longleftrightarrow>
     set (map fst vars) = set (map fst mvars) \<and>
     list_all (\<lambda>(key, b). case map_of mvars key of
                 None \<Rightarrow> False
               | Some v \<Rightarrow> rows b = rows v \<and> columns b = columns v \<and> well_formed b) vars"

text \<open>
  The offset of the \<open>i\<close>-th key in sorted order: the number of entries of the
  blocks stored under the keys before it.
\<close>

definition offset_at :: "('k::linorder, 'e) Variables \<Rightarrow> nat \<Rightarrow> nat" where
  "offset_at mvars i =
     sum_list (map numel (take i (stored_blocks mvars (getSortedVarKeys mvars))))"

subsection \<open>The numbers of the bound matrices\<close>

text \<open>
  A \<^verbatim>\<open>double\<close> as far as the bounds need it: a finite number, one of the two
  infinities, or not a number. \<open>\<infinity>\<close> is \<^verbatim>\<open>std::numeric_limits<double>::infinity()\<close>.
\<close>

datatype double = Finite real | PlusInfinity | MinusInfinity | NaN

instantiation double :: "{uminus, infinity}"
begin

definition infinity_double :: double where
  "infinity_double = PlusInfinity"

fun uminus_double :: "double \<Rightarrow> double" where
  "uminus_double (Finite r) = Finite (- r)"
| "uminus_double PlusInfinity = MinusInfinity"
| "uminus_double MinusInfinity = PlusInfinity"
| "uminus_double NaN = NaN"

instance ..

end

subsection \<open>A small instance\<close>

text \<open>
  One state with three grid points between an initial and a final time; the keys
  are \<open>0\<close> for the initial time, \<open>1\<close> for the final time and \<open>2\<close> for the states.
  The lower bound of the states lies above their upper bound. The solver function
  returns its initial guess and reports that it ran out of iterations.
\<close>

definition example_self :: "(nat, real, string, string, unit) Transcription" where
  "example_self =
     \<lparr>m_solver = \<lparr>getPluginOptions = [(''print_time'', Value ''false'')],
                  getOptimSolver = ''ipopt'',
                  getSolverOptions = [(''max_iter'', Value ''50'')]\<rparr>,
      m_problem = (),
      m_vars = [(2, \<lparr>rows = 1, columns = 3, elems = [''x0'', ''x1'', ''x2'']\<rparr>),
                (0, scalar ''ti''), (1, scalar ''tf'')],
      m_lowerBounds = [(0, scalar 0), (1, scalar 1),
                       (2, \<lparr>rows = 1, columns = 3, elems = [5, 5, 5]\<rparr>)],
      m_upperBounds = [(0, scalar 0), (1, scalar 4),
                       (2, \<lparr>rows = 1, columns = 3, elems = [1, 1, 1]\<rparr>)],
      m_numGridPoints = 3,
      m_grid = \<lparr>rows = 1, columns = 3, elems = [0, 1 / 2, 1]\<rparr>,
      m_times = \<lparr>rows = 1, columns = 3, elems = [''t0'', ''t1'', ''t2'']\<rparr>,
      m_duration = scalar ''tf - ti'',
      xdot = empty_DM,
      qerr = empty_DM,
      m_objective = scalar ''J'',
      m_constraints = [scalar ''d0'', scalar ''d1''],
      m_constraintsLowerBounds = [scalar 0, scalar 0],
      m_constraintsUpperBounds = [scalar 0, scalar 0]\<rparr>"

definition example_solver_function ::
  "(string \<times> real matrix) list \<Rightarrow> error + (string \<times> real matrix) list \<times> string Dict" where
  "example_solver_function arguments =
     (case map_of arguments ''x0'' of
        None \<Rightarrow> Inl SolverFailed
      | Some x0 \<Rightarrow>
          Inr ([(''x'', x0)],
               [(''success'', Value ''false''),
                (''return_status'', Value ''Maximum_Iterations_Exceeded'')]))"

definition example_collaborators :: "(nat, real, string, string, unit) Collaborators" where
  "example_collaborators =
     \<lparr>resample = (\<lambda>guess newTimes. Inr (guess\<lparr>times_DM := newTimes\<rparr>)),
      createIterate = (\<lambda>problem. \<lparr>variables = [], times_DM = empty_DM, stats = []\<rparr>),
      nlpsol = (\<lambda>name solver nlp options. Inr example_solver_function)\<rparr>"

definition example_guess :: "(nat, real) Iterate" where
  "example_guess =
     \<lparr>variables = [(0, scalar 0), (1, scalar 2),
                   (2, \<lparr>rows = 1, columns = 3, elems = [7, 8, 9]\<rparr>)],
      times_DM = \<lparr>rows = 1, columns = 3, elems = [0, 1, 2]\<rparr>\<rparr>"

definition example_other_guess :: "(nat, real) Iterate" where
  "example_other_guess =
     \<lparr>variables = [(0, scalar 0), (1, scalar 4),
                   (2, \<lparr>rows = 1, columns = 3, elems = [1, 1, 1]\<rparr>)],
      times_DM = \<lparr>rows = 1, columns = 3, elems = [0, 2, 4]\<rparr>\<rparr>"

definition example_solution_value :: "(nat, real, string) Solution" where
  "example_solution_value =
     \<lparr>variables = [(0, scalar 0), (1, scalar 2),
                   (2, \<lparr>rows = 1, columns = 3, elems = [7, 8, 9]\<rparr>)],
      times_DM = \<lparr>rows = 1, columns = 3, elems = [0, 1, 2]\<rparr>,
      stats = [(''success'', Value ''false''),
               (''return_status'', Value ''Maximum_Iterations_Exceeded'')]\<rparr>"

text \<open>
  A second solver function: whatever the guess, it returns the initial time \<open>1\<close>, the
  final time \<open>3\<close> and the states \<open>7, 8, 9\<close>, and reports success.
\<close>

definition example_moving_solver_function ::
  "(string \<times> real matrix) list \<Rightarrow> error + (string \<times> real matrix) list \<times> string Dict" where
  "example_moving_solver_function arguments =
     Inr ([(''x'', \<lparr>rows = 5, columns = 1, elems = [1, 3, 7, 8, 9]\<rparr>)],
          [(''success'', Value ''true'')])"

definition example_moving_collaborators :: "(nat, real, string, string, unit) Collaborators" where
  "example_moving_collaborators =
     \<lparr>resample = (\<lambda>guess newTimes. Inr (guess\<lparr>times_DM := newTimes\<rparr>)),
      createIterate = (\<lambda>problem. \<lparr>variables = [], times_DM = empty_DM, stats = []\<rparr>),
      nlpsol = (\<lambda>name solver nlp options. Inr example_moving_solver_function)\<rparr>"

text \<open>An instance under construction, with bounds not yet set, and a reading of \<^verbatim>\<open>isSet()\<close>.\<close>

definition example_building :: "(nat, double, string, string, unit) Transcription" where
  "example_building =
     \<lparr>m_solver = \<lparr>getPluginOptions = [], getOptimSolver = ''ipopt'', getSolverOptions = []\<rparr>,
      m_problem = (),
      m_vars = [(2, \<lparr>rows = 1, columns = 3, elems = [''x0'', ''x1'', ''x2'']\<rparr>)],
      m_lowerBounds = [(2, \<lparr>rows = 1, columns = 3, elems = [Finite 0, Finite 0, Finite 0]\<rparr>)],
      m_upperBounds = [(2, \<lparr>rows = 1, columns = 3, elems = [Finite 0, Finite 0, Finite 0]\<rparr>)],
      m_numGridPoints = 3,
      m_grid = \<lparr>rows = 1, columns = 3, elems = [Finite 0, Finite (1 / 2), Finite 1]\<rparr>,
      m_times = empty_DM,
      m_duration = empty_DM,
      xdot = empty_DM,
      qerr = empty_DM,
      m_objective = empty_DM,
      m_constraints = [],
      m_constraintsLowerBounds = [],
      m_constraintsUpperBounds = []\<rparr>"

definition example_isSet :: "double Bounds \<Rightarrow> bool" where
  "example_isSet bounds \<longleftrightarrow> lower bounds \<noteq> NaN \<and> upper bounds \<noteq> NaN"

section \<open>Properties\<close>

subsection \<open>The codec\<close>

lemma flatten_lookup_defined:
  "key \<in> set (getSortedVarKeys vars) \<Longrightarrow> map_of vars key \<noteq> None"
  by (simp add: getSortedVarKeys_def map_of_eq_None_iff)

lemma sorted_keys_of_equal_maps:
  assumes "is_map a" and "is_map b" and "map_of a = map_of b"
  shows "getSortedVarKeys a = getSortedVarKeys b"
proof -
  have "set (map fst a) = dom (map_of a)"
    by (simp add: dom_map_of_conv_image_fst)
  also have "\<dots> = dom (map_of b)"
    using assms(3) by simp
  also have "\<dots> = set (map fst b)"
    by (simp add: dom_map_of_conv_image_fst)
  finally have same: "set (map fst a) = set (map fst b)" .
  have "sort (map fst a) = sorted_list_of_set (set (map fst a))"
    using assms(1) sorted_list_of_set_sort_remdups [of "map fst a"]
    by (simp only: is_map_def distinct_remdups_id)
  also have "\<dots> = sorted_list_of_set (set (map fst b))"
    by (simp only: same)
  also have "\<dots> = sort (map fst b)"
    using assms(2) sorted_list_of_set_sort_remdups [of "map fst b"]
    by (simp only: is_map_def distinct_remdups_id)
  finally show ?thesis
    by (simp add: getSortedVarKeys_def)
qed

lemma update_fresh_key: "key \<notin> fst ` set al \<Longrightarrow> AList.update key v al = al @ [(key, v)]"
  by (induction al) auto

lemma length_blocks_from [simp]: "length (blocks_from vs xs) = length vs"
  by (induction vs arbitrary: xs) auto

lemma expand_loop_result:
  assumes "distinct keys" and "set keys \<inter> fst ` set out = {}"
    and "offset + sum_list (map numel (stored_blocks vars keys)) \<le> numel x"
  shows "expand_loop vars x keys offset out =
           Inr (out @ zip keys (blocks_from (stored_blocks vars keys) (drop offset (elems x))))"
  using assms
proof (induction keys arbitrary: offset out)
  case Nil
  then show ?case by (simp add: stored_blocks_def)
next
  case (Cons key keys)
  let ?v = "the (map_of vars key)"
  let ?b = "\<lparr>rows = rows ?v, columns = columns ?v, elems = take (numel ?v) (drop offset (elems x))\<rparr>"
  have fresh: "key \<notin> fst ` set out"
    using Cons.prems(2) by auto
  have disj: "set keys \<inter> fst ` set (out @ [(key, ?b)]) = {}"
    using Cons.prems(1,2) by auto
  have bound: "(offset + numel ?v) + sum_list (map numel (stored_blocks vars keys)) \<le> numel x"
    using Cons.prems(3) by (simp add: stored_blocks_def)
  have "expand_loop vars x (key # keys) offset out =
      expand_loop vars x keys (offset + numel ?v) (out @ [(key, ?b)])"
    using Cons.prems(3) fresh
    by (simp add: slice_def reshape_def numel_def stored_blocks_def update_fresh_key Let_def)
  also have "\<dots> = Inr ((out @ [(key, ?b)]) @
      zip keys (blocks_from (stored_blocks vars keys) (drop (offset + numel ?v) (elems x))))"
    using Cons.prems(1) by (intro Cons.IH [OF _ disj bound]) simp
  finally show ?case
    by (simp add: stored_blocks_def add.commute)
qed

lemma blocks_from_nth:
  "i < length vs \<Longrightarrow>
     blocks_from vs xs ! i =
       \<lparr>rows = rows (vs ! i), columns = columns (vs ! i),
        elems = take (numel (vs ! i)) (drop (sum_list (map numel (take i vs))) xs)\<rparr>"
proof (induction vs arbitrary: xs i)
  case Nil
  then show ?case by simp
next
  case (Cons v vs)
  then show ?case
    by (cases i) (simp_all add: add.commute)
qed

lemma concat_blocks_from:
  "sum_list (map numel vs) \<le> length xs \<Longrightarrow>
     concat (map elems (blocks_from vs xs)) = take (sum_list (map numel vs)) xs"
proof (induction vs arbitrary: xs)
  case Nil
  then show ?case by simp
next
  case (Cons v vs)
  have "take (numel v + sum_list (map numel vs)) xs =
      take (numel v) xs @ take (sum_list (map numel vs)) (drop (numel v) xs)"
    by (simp add: take_add)
  with Cons show ?case by simp
qed

lemma numel_blocks_from:
  "map numel (blocks_from vs xs) = map numel vs"
  by (induction vs arbitrary: xs) (simp_all add: numel_def)

lemma flatten_cong:
  assumes "is_map a" and "is_map b" and "map_of a = map_of b"
  shows "flatten a = flatten b"
  using sorted_keys_of_equal_maps [OF assms] assms(3) by (simp add: flatten_def)

lemma distinct_sorted_keys: "is_map vars \<Longrightarrow> distinct (getSortedVarKeys vars)"
  by (simp add: is_map_def getSortedVarKeys_def)

lemma set_sorted_keys: "set (getSortedVarKeys vars) = fst ` set vars"
  by (simp add: getSortedVarKeys_def)

lemma numel_flatten:
  "numel (flatten vars) = sum_list (map numel (stored_blocks vars (getSortedVarKeys vars)))"
  by (simp add: flatten_def veccat_def numel_def stored_blocks_def)

lemma elems_flatten:
  "elems (flatten vars) = concat (map elems (stored_blocks vars (getSortedVarKeys vars)))"
  by (simp add: flatten_def veccat_def stored_blocks_def)

lemma expand_result:
  assumes "is_map mvars" and "numel (flatten mvars) \<le> numel x"
  shows "expand mvars x =
     Inr (zip (getSortedVarKeys mvars)
            (blocks_from (stored_blocks mvars (getSortedVarKeys mvars)) (elems x)))"
  using expand_loop_result [of "getSortedVarKeys mvars" "[]" 0 mvars x]
    distinct_sorted_keys [OF assms(1)] assms(2)
  by (simp add: expand_def numel_flatten)

lemma blocks_from_take:
  "sum_list (map numel vs) \<le> n \<Longrightarrow> blocks_from vs (take n xs) = blocks_from vs xs"
proof (induction vs arbitrary: n xs)
  case Nil
  then show ?case by simp
next
  case (Cons v vs)
  have "sum_list (map numel vs) \<le> n - numel v"
    using Cons.prems by simp
  then have "blocks_from vs (take (n - numel v) (drop (numel v) xs)) =
      blocks_from vs (drop (numel v) xs)"
    by (rule Cons.IH)
  moreover have "numel v \<le> n"
    using Cons.prems by simp
  ultimately show ?case
    by (simp add: drop_take min_absorb1)
qed

lemma blocks_from_concat:
  assumes "list_all2 (\<lambda>v b. rows b = rows v \<and> columns b = columns v \<and> well_formed b) vs bs"
  shows "blocks_from vs (concat (map elems bs) @ rest) = bs"
  using assms
proof (induction vs bs arbitrary: rest rule: list_all2_induct)
  case Nil
  then show ?case by simp
next
  case (Cons v vs b bs)
  have len: "length (elems b) = numel v"
    using Cons.hyps(1) by (simp add: well_formed_def numel_def)
  have "\<lparr>rows = rows v, columns = columns v, elems = elems b\<rparr> = b"
    using Cons.hyps(1) by simp
  with len Cons.IH [of rest] show ?case
    by simp
qed

lemma well_formed_blocks_from:
  assumes "sum_list (map numel vs) \<le> length xs" and "i < length vs"
  shows "well_formed (blocks_from vs xs ! i)"
proof -
  have "sum_list (map numel (take i vs)) + numel (vs ! i) = sum_list (map numel (take (Suc i) vs))"
    using assms(2) by (simp add: take_Suc_conv_app_nth)
  also have "\<dots> \<le> sum_list (map numel (take (Suc i) vs)) + sum_list (map numel (drop (Suc i) vs))"
    by simp
  also have "\<dots> = sum_list (map numel vs)"
    by (metis append_take_drop_id map_append sum_list_append)
  finally have "sum_list (map numel (take i vs)) + numel (vs ! i) \<le> length xs"
    using assms(1) by simp
  then show ?thesis
    using assms(2) by (simp add: blocks_from_nth well_formed_def numel_def)
qed

lemma map_of_zip_stored:
  assumes "is_map vars"
  shows "map_of (zip (getSortedVarKeys vars) (stored_blocks vars (getSortedVarKeys vars))) = map_of vars"
proof (rule ext)
  fix key
  show "map_of (zip (getSortedVarKeys vars) (stored_blocks vars (getSortedVarKeys vars))) key
      = map_of vars key"
  proof (cases "key \<in> fst ` set vars")
    case True
    then obtain v where "map_of vars key = Some v"
      by (metis map_of_eq_None_iff not_Some_eq)
    with True show ?thesis
      by (simp add: stored_blocks_def map_of_zip_map set_sorted_keys)
  next
    case False
    then have "map_of vars key = None"
      by (simp add: map_of_eq_None_iff)
    with False show ?thesis
      by (simp add: stored_blocks_def map_of_zip_map set_sorted_keys)
  qed
qed

text \<open>
  Claim C2. \<^verbatim>\<open>flatten\<close> depends on the contents of the map only, not on the order in
  which the container iterates: two variable maps that assign the same block to
  the same key are flattened to the same vector, whatever the order of their
  entries, since the keys are sorted before the blocks are concatenated.
\<close>

theorem flatten_independent_of_iteration_order:
  assumes "is_map a" and "is_map b" and "map_of a = map_of b"
  shows "flatten a = flatten b"
  using sorted_keys_of_equal_maps [OF assms] assms(3) by (simp add: flatten_def)

theorem flatten_independent_of_iteration_order_witness:
  "is_map [(2::nat, \<lparr>rows = 1, columns = 2, elems = [5::int, 6]\<rparr>),
           (0, \<lparr>rows = 1, columns = 1, elems = [7]\<rparr>)]
   \<and> is_map [(0::nat, \<lparr>rows = 1, columns = 1, elems = [7::int]\<rparr>),
             (2, \<lparr>rows = 1, columns = 2, elems = [5, 6]\<rparr>)]
   \<and> flatten [(2::nat, \<lparr>rows = 1, columns = 2, elems = [5::int, 6]\<rparr>),
              (0, \<lparr>rows = 1, columns = 1, elems = [7]\<rparr>)]
     = flatten [(0::nat, \<lparr>rows = 1, columns = 1, elems = [7::int]\<rparr>),
                (2, \<lparr>rows = 1, columns = 2, elems = [5, 6]\<rparr>)]
   \<and> flatten [(2::nat, \<lparr>rows = 1, columns = 2, elems = [5::int, 6]\<rparr>),
              (0, \<lparr>rows = 1, columns = 1, elems = [7]\<rparr>)]
     = \<lparr>rows = 3, columns = 1, elems = [7, 5, 6]\<rparr>"
proof -
  let ?a = "[(2::nat, \<lparr>rows = 1, columns = 2, elems = [5::int, 6]\<rparr>),
             (0, \<lparr>rows = 1, columns = 1, elems = [7]\<rparr>)]"
  let ?b = "[(0::nat, \<lparr>rows = 1, columns = 1, elems = [7::int]\<rparr>),
             (2, \<lparr>rows = 1, columns = 2, elems = [5, 6]\<rparr>)]"
  have a: "is_map ?a" and b: "is_map ?b"
    by (simp_all add: is_map_def)
  have eq: "map_of ?a = map_of ?b"
    by (rule ext) simp
  have val: "flatten ?a = \<lparr>rows = 3, columns = 1, elems = [7, 5, 6]\<rparr>"
    by (simp add: flatten_def getSortedVarKeys_def veccat_def numel_def)
  show ?thesis
    using flatten_independent_of_iteration_order [OF a b eq] a b val by simp
qed

text \<open>
  Claim C10. For a flat vector \<open>x\<close> with at least as many entries as the stored
  blocks have together, \<^verbatim>\<open>expand\<close> returns a map with exactly the keys of the
  variable store; the block under the \<open>i\<close>-th key in sorted order has the stored
  block's rows and columns and holds the entries of \<open>x\<close> from that key's offset
  on; entries of \<open>x\<close> beyond the total count are ignored (expanding \<open>x\<close> and
  expanding its prefix of that length give the same map).
\<close>

theorem expand_blocks:
  fixes mvars :: "('k::linorder, 'e) Variables" and x :: "'a matrix"
  assumes "is_map mvars" and "well_formed x" and "numel (flatten mvars) \<le> numel x"
  shows "\<exists>out. expand mvars x = Inr out
           \<and> is_map out
           \<and> fst ` set out = fst ` set mvars
           \<and> (\<forall>i < length (getSortedVarKeys mvars).
                 map_of out (getSortedVarKeys mvars ! i) =
                   Some \<lparr>rows = rows (the (map_of mvars (getSortedVarKeys mvars ! i))),
                         columns = columns (the (map_of mvars (getSortedVarKeys mvars ! i))),
                         elems = take (numel (the (map_of mvars (getSortedVarKeys mvars ! i))))
                                   (drop (offset_at mvars i) (elems x))\<rparr>
                 \<and> well_formed (the (map_of out (getSortedVarKeys mvars ! i))))
           \<and> expand mvars \<lparr>rows = numel (flatten mvars), columns = 1,
                              elems = take (numel (flatten mvars)) (elems x)\<rparr> = Inr out"
proof -
  let ?keys = "getSortedVarKeys mvars"
  let ?vs = "stored_blocks mvars ?keys"
  let ?out = "zip ?keys (blocks_from ?vs (elems x))"
  let ?n = "numel (flatten mvars)"
  have dist: "distinct ?keys"
    by (rule distinct_sorted_keys [OF assms(1)])
  have len: "length (blocks_from ?vs (elems x)) = length ?keys"
    by (simp add: stored_blocks_def)
  have fit: "sum_list (map numel ?vs) \<le> length (elems x)"
    using assms(2,3) by (simp add: numel_flatten well_formed_def)
  have res: "expand mvars x = Inr ?out"
    by (rule expand_result [OF assms(1,3)])
  have keys_out: "map fst ?out = ?keys"
    using len by simp
  have map_out: "is_map ?out"
    using dist by (simp only: is_map_def keys_out)
  have dom_out: "fst ` set ?out = fst ` set mvars"
    using keys_out by (metis set_map set_sorted_keys)
  have blocks: "map_of ?out (?keys ! i) =
      Some \<lparr>rows = rows (the (map_of mvars (?keys ! i))),
            columns = columns (the (map_of mvars (?keys ! i))),
            elems = take (numel (the (map_of mvars (?keys ! i))))
                      (drop (offset_at mvars i) (elems x))\<rparr>
      \<and> well_formed (the (map_of ?out (?keys ! i)))"
    if "i < length ?keys" for i
  proof -
    have i_vs: "i < length ?vs"
      using that by (simp add: stored_blocks_def)
    have "map_of ?out (?keys ! i) = Some (blocks_from ?vs (elems x) ! i)"
      using len dist that by (simp add: map_of_zip_nth)
    moreover have "?vs ! i = the (map_of mvars (?keys ! i))"
      using that by (simp add: stored_blocks_def)
    ultimately show ?thesis
      using blocks_from_nth [OF i_vs, of "elems x"] well_formed_blocks_from [OF fit i_vs]
      by (simp add: offset_at_def)
  qed
  have "expand mvars \<lparr>rows = ?n, columns = 1, elems = take ?n (elems x)\<rparr> =
      Inr (zip ?keys (blocks_from ?vs (take ?n (elems x))))"
    using expand_result [OF assms(1), of "\<lparr>rows = ?n, columns = 1, elems = take ?n (elems x)\<rparr>"]
    by (simp add: numel_def)
  then have prefix: "expand mvars \<lparr>rows = ?n, columns = 1, elems = take ?n (elems x)\<rparr> = Inr ?out"
    by (simp add: blocks_from_take numel_flatten)
  show ?thesis
    using res map_out dom_out blocks prefix by blast
qed

theorem expand_blocks_witness:
  "is_map [(2::nat, \<lparr>rows = 2, columns = 1, elems = [''q'', ''u'']\<rparr>),
           (0, \<lparr>rows = 1, columns = 1, elems = [''ti'']\<rparr>)]
   \<and> well_formed \<lparr>rows = 4, columns = 1, elems = [10::int, 20, 30, 40]\<rparr>
   \<and> numel (flatten [(2::nat, \<lparr>rows = 2, columns = 1, elems = [''q'', ''u'']\<rparr>),
                      (0, \<lparr>rows = 1, columns = 1, elems = [''ti'']\<rparr>)])
         \<le> numel \<lparr>rows = 4, columns = 1, elems = [10::int, 20, 30, 40]\<rparr>
   \<and> expand [(2::nat, \<lparr>rows = 2, columns = 1, elems = [''q'', ''u'']\<rparr>),
              (0, \<lparr>rows = 1, columns = 1, elems = [''ti'']\<rparr>)]
        \<lparr>rows = 4, columns = 1, elems = [10::int, 20, 30, 40]\<rparr>
       = Inr [(0, \<lparr>rows = 1, columns = 1, elems = [10]\<rparr>),
              (2, \<lparr>rows = 2, columns = 1, elems = [20, 30]\<rparr>)]
   \<and> expand [(2::nat, \<lparr>rows = 2, columns = 1, elems = [''q'', ''u'']\<rparr>),
              (0, \<lparr>rows = 1, columns = 1, elems = [''ti'']\<rparr>)]
        \<lparr>rows = 3, columns = 1, elems = [10::int, 20, 30]\<rparr>
       = Inr [(0, \<lparr>rows = 1, columns = 1, elems = [10]\<rparr>),
              (2, \<lparr>rows = 2, columns = 1, elems = [20, 30]\<rparr>)]"
proof -
  let ?m = "[(2::nat, \<lparr>rows = 2, columns = 1, elems = [''q'', ''u'']\<rparr>),
             (0, \<lparr>rows = 1, columns = 1, elems = [''ti'']\<rparr>)]"
  let ?x = "\<lparr>rows = 4, columns = 1, elems = [10::int, 20, 30, 40]\<rparr>"
  have h1: "is_map ?m"
    by (simp add: is_map_def)
  have h2: "well_formed ?x"
    by (simp add: well_formed_def numel_def)
  have n: "numel (flatten ?m) = 3"
    by (simp add: flatten_def getSortedVarKeys_def veccat_def numel_def)
  have nx: "numel ?x = 4"
    by (simp add: numel_def)
  have h3: "numel (flatten ?m) \<le> numel ?x"
    using n nx by simp
  have val: "expand ?m ?x = Inr [(0, \<lparr>rows = 1, columns = 1, elems = [10]\<rparr>),
                                 (2, \<lparr>rows = 2, columns = 1, elems = [20, 30]\<rparr>)]"
    by (simp add: expand_def getSortedVarKeys_def slice_def reshape_def numel_def)
  from expand_blocks [OF h1 h2 h3] obtain out where
    "expand ?m ?x = Inr out" and
    "expand ?m \<lparr>rows = numel (flatten ?m), columns = 1,
                 elems = take (numel (flatten ?m)) (elems ?x)\<rparr> = Inr out"
    by blast
  with val n have "expand ?m \<lparr>rows = 3, columns = 1, elems = [10::int, 20, 30]\<rparr> =
      Inr [(0, \<lparr>rows = 1, columns = 1, elems = [10]\<rparr>),
           (2, \<lparr>rows = 2, columns = 1, elems = [20, 30]\<rparr>)]"
    by simp
  with h1 h2 h3 val show ?thesis
    by blast
qed

text \<open>
  Claim C1. For a variable store and a flat vector \<open>v\<close> produced by flattening
  variables laid out like the store, \<^verbatim>\<open>expand\<close> succeeds on \<open>v\<close> and flattening the
  result gives \<open>v\<close> back; the expanded map assigns the blocks that were flattened.
\<close>

theorem flatten_expand_roundtrip:
  fixes mvars :: "('k::linorder, 'e) Variables" and vars :: "('k, 'a) Variables"
  assumes "is_map mvars" and "is_map vars" and "same_layout vars mvars"
  shows "\<exists>out. expand mvars (flatten vars) = Inr out
           \<and> flatten out = flatten vars
           \<and> is_map out \<and> map_of out = map_of vars"
proof -
  let ?keys = "getSortedVarKeys mvars"
  let ?vs = "stored_blocks mvars ?keys"
  let ?bs = "stored_blocks vars ?keys"
  have keys_eq: "getSortedVarKeys vars = ?keys"
  proof -
    have "set (map fst vars) = set (map fst mvars)"
      using assms(3) by (simp add: same_layout_def)
    then have "sorted_list_of_set (set (map fst vars)) = sorted_list_of_set (set (map fst mvars))"
      by simp
    then show ?thesis
      using assms(1,2)
      by (simp only: sorted_list_of_set_sort_remdups is_map_def distinct_remdups_id
          getSortedVarKeys_def)
  qed
  have fits: "list_all2 (\<lambda>v b. rows b = rows v \<and> columns b = columns v \<and> well_formed b) ?vs ?bs"
  proof -
    have "rows (the (map_of vars key)) = rows (the (map_of mvars key))
        \<and> columns (the (map_of vars key)) = columns (the (map_of mvars key))
        \<and> well_formed (the (map_of vars key))"
      if "key \<in> set ?keys" for key
    proof -
      from that have "key \<in> fst ` set vars"
        using keys_eq by (metis set_sorted_keys)
      then obtain b where b: "map_of vars key = Some b"
        by (metis map_of_eq_None_iff not_Some_eq)
      then have "(key, b) \<in> set vars"
        by (rule map_of_SomeD)
      then show ?thesis
        using assms(3) b by (auto simp: same_layout_def list_all_iff split: option.splits)
    qed
    then show ?thesis
      by (simp add: stored_blocks_def list_all2_conv_all_nth)
  qed
  have numel_eq: "map numel ?bs = map numel ?vs"
    using fits by (induction rule: list_all2_induct) (simp_all add: numel_def)
  have "numel (flatten mvars) \<le> numel (flatten vars)"
    by (simp add: numel_flatten keys_eq numel_eq)
  then have "expand mvars (flatten vars) =
      Inr (zip ?keys (blocks_from ?vs (elems (flatten vars))))"
    by (rule expand_result [OF assms(1)])
  moreover have "blocks_from ?vs (elems (flatten vars)) = ?bs"
    using blocks_from_concat [OF fits, of "[]"] by (simp add: elems_flatten keys_eq)
  ultimately have res: "expand mvars (flatten vars) = Inr (zip ?keys ?bs)"
    by simp
  have same: "map_of (zip ?keys ?bs) = map_of vars"
    using map_of_zip_stored [OF assms(2)] by (simp add: keys_eq)
  have map_out: "is_map (zip ?keys ?bs)"
    using distinct_sorted_keys [OF assms(1)] by (simp add: is_map_def stored_blocks_def)
  have "flatten (zip ?keys ?bs) = flatten vars"
    by (rule flatten_cong [OF map_out assms(2) same])
  with res same map_out show ?thesis
    by blast
qed

theorem flatten_expand_roundtrip_witness:
  "is_map [(2::nat, \<lparr>rows = 2, columns = 1, elems = [''q'', ''u'']\<rparr>),
           (0, \<lparr>rows = 1, columns = 1, elems = [''ti'']\<rparr>)]
   \<and> is_map [(0::nat, \<lparr>rows = 1, columns = 1, elems = [10::int]\<rparr>),
             (2, \<lparr>rows = 2, columns = 1, elems = [20, 30]\<rparr>)]
   \<and> same_layout [(0::nat, \<lparr>rows = 1, columns = 1, elems = [10::int]\<rparr>),
                  (2, \<lparr>rows = 2, columns = 1, elems = [20, 30]\<rparr>)]
                 [(2::nat, \<lparr>rows = 2, columns = 1, elems = [''q'', ''u'']\<rparr>),
                  (0, \<lparr>rows = 1, columns = 1, elems = [''ti'']\<rparr>)]
   \<and> flatten [(0::nat, \<lparr>rows = 1, columns = 1, elems = [10::int]\<rparr>),
              (2, \<lparr>rows = 2, columns = 1, elems = [20, 30]\<rparr>)]
       = \<lparr>rows = 3, columns = 1, elems = [10, 20, 30]\<rparr>
   \<and> (\<exists>out. expand [(2::nat, \<lparr>rows = 2, columns = 1, elems = [''q'', ''u'']\<rparr>),
                     (0, \<lparr>rows = 1, columns = 1, elems = [''ti'']\<rparr>)]
               \<lparr>rows = 3, columns = 1, elems = [10::int, 20, 30]\<rparr> = Inr out
            \<and> flatten out = \<lparr>rows = 3, columns = 1, elems = [10, 20, 30]\<rparr>)"
proof -
  let ?m = "[(2::nat, \<lparr>rows = 2, columns = 1, elems = [''q'', ''u'']\<rparr>),
             (0, \<lparr>rows = 1, columns = 1, elems = [''ti'']\<rparr>)]"
  let ?vars = "[(0::nat, \<lparr>rows = 1, columns = 1, elems = [10::int]\<rparr>),
                (2, \<lparr>rows = 2, columns = 1, elems = [20, 30]\<rparr>)]"
  have h1: "is_map ?m" and h2: "is_map ?vars"
    by (simp_all add: is_map_def)
  have h3: "same_layout ?vars ?m"
    by (auto simp: same_layout_def well_formed_def numel_def)
  have v: "flatten ?vars = \<lparr>rows = 3, columns = 1, elems = [10, 20, 30]\<rparr>"
    by (simp add: flatten_def getSortedVarKeys_def veccat_def numel_def)
  from flatten_expand_roundtrip [OF h1 h2 h3] obtain out where
    "expand ?m (flatten ?vars) = Inr out" and "flatten out = flatten ?vars"
    by blast
  with v have "\<exists>out. expand ?m \<lparr>rows = 3, columns = 1, elems = [10::int, 20, 30]\<rparr> = Inr out
      \<and> flatten out = \<lparr>rows = 3, columns = 1, elems = [10, 20, 30]\<rparr>"
    by simp
  with h1 h2 h3 v show ?thesis
    by blast
qed

subsection \<open>Evaluating the small instance\<close>

lemma example_guess_prepared:
  "solve_guess example_collaborators 0 1 example_self example_guess =
     Inr (example_guess\<lparr>times_DM := \<lparr>rows = 1, columns = 3, elems = [0, 1, 2]\<rparr>\<rparr>)"
  by (simp add: solve_guess_def example_collaborators_def example_self_def example_guess_def
      at_key_def createTimes_def binary_def is_scalar_def numel_def scalar_def)

lemma example_arguments:
  "solve_arguments example_self example_guess =
     [(''x0'', \<lparr>rows = 5, columns = 1, elems = [0, 2, 7, 8, 9]\<rparr>),
      (''lbx'', \<lparr>rows = 5, columns = 1, elems = [0, 1, 5, 5, 5]\<rparr>),
      (''ubx'', \<lparr>rows = 5, columns = 1, elems = [0, 4, 1, 1, 1]\<rparr>),
      (''lbg'', \<lparr>rows = 2, columns = 1, elems = [0, 0]\<rparr>),
      (''ubg'', \<lparr>rows = 2, columns = 1, elems = [0, 0]\<rparr>)]"
  by (simp add: solve_arguments_def example_self_def example_guess_def flatten_def
      getSortedVarKeys_def veccat_def numel_def scalar_def)

lemma example_options:
  "solve_options (m_solver example_self) =
     [(''print_time'', Value ''false''), (''ipopt'', Dict [(''max_iter'', Value ''50'')])]"
  by (simp add: solve_options_def example_self_def)

lemma example_solution:
  "solve_solution example_collaborators 0 1 example_self
     [(''x'', \<lparr>rows = 5, columns = 1, elems = [0, 2, 7, 8, 9]\<rparr>)] st =
   Inr \<lparr>variables = [(0, scalar 0), (1, scalar 2),
                      (2, \<lparr>rows = 1, columns = 3, elems = [7, 8, 9]\<rparr>)],
        times_DM = \<lparr>rows = 1, columns = 3, elems = [0, 1, 2]\<rparr>,
        stats = st\<rparr>"
  by (simp add: solve_solution_def example_collaborators_def example_self_def at_key_def
      expand_def getSortedVarKeys_def slice_def reshape_def numel_def scalar_def subscript_def
      createTimes_def binary_def is_scalar_def)

lemma example_run:
  "solve example_collaborators 0 1 example_self example_guess =
     \<lparr>outcome = Inr \<lparr>variables = [(0, scalar 0), (1, scalar 2),
                                  (2, \<lparr>rows = 1, columns = 3, elems = [7, 8, 9]\<rparr>)],
                     times_DM = \<lparr>rows = 1, columns = 3, elems = [0, 1, 2]\<rparr>,
                     stats = [(''success'', Value ''false''),
                              (''return_status'', Value ''Maximum_Iterations_Exceeded'')]\<rparr>,
      constructed = [(''nlp'', ''ipopt'', solve_nlp example_self,
                      [(''print_time'', Value ''false''),
                       (''ipopt'', Dict [(''max_iter'', Value ''50'')])])],
      invoked = [solve_arguments example_self example_guess],
      self_after = example_self\<rparr>"
proof -
  have args: "solve_arguments example_self
      (example_guess\<lparr>times_DM := \<lparr>rows = 1, columns = 3, elems = [0, 1, 2]\<rparr>\<rparr>) =
      solve_arguments example_self example_guess"
    by (simp add: solve_arguments_def)
  have name: "getOptimSolver (m_solver example_self) = ''ipopt''"
    by (simp add: example_self_def)
  have call: "nlpsol example_collaborators ''nlp'' ''ipopt'' nlp options =
      Inr example_solver_function" for nlp options
    by (simp add: example_collaborators_def)
  have result: "example_solver_function (solve_arguments example_self example_guess) =
      Inr ([(''x'', \<lparr>rows = 5, columns = 1, elems = [0, 2, 7, 8, 9]\<rparr>)],
           [(''success'', Value ''false''),
            (''return_status'', Value ''Maximum_Iterations_Exceeded'')])"
    by (simp add: example_solver_function_def example_arguments)
  show ?thesis
    unfolding solve_def example_guess_prepared Let_def
    by (simp add: args name call result example_options example_solution del: One_nat_def)
qed

lemma example_outcome:
  "outcome (solve example_collaborators 0 1 example_self example_guess) = Inr example_solution_value"
  unfolding example_run example_solution_value_def by simp

lemma example_invoked:
  "invoked (solve example_collaborators 0 1 example_self example_guess) =
     [solve_arguments example_self example_guess]"
  unfolding example_run by simp

lemma example_constructed:
  "constructed (solve example_collaborators 0 1 example_self example_guess) =
     [(''nlp'', ''ipopt'', solve_nlp example_self,
       [(''print_time'', Value ''false''), (''ipopt'', Dict [(''max_iter'', Value ''50'')])])]"
  unfolding example_run by simp

lemma example_building_blocks:
  "at_key (m_lowerBounds example_building) 2 =
     Inr \<lparr>rows = 1, columns = 3, elems = [Finite 0, Finite 0, Finite 0]\<rparr>"
  "at_key (m_upperBounds example_building) 2 =
     Inr \<lparr>rows = 1, columns = 3, elems = [Finite 0, Finite 0, Finite 0]\<rparr>"
  by (simp_all add: example_building_def at_key_def)

subsection \<open>Times\<close>

lemma createTimes_scalars:
  fixes grid :: "'a::{plus,minus,times} matrix"
  assumes "well_formed grid" and comm: "\<And>x y :: 'a. x * y = y * x"
  shows "createTimes grid (scalar initialTime) (scalar finalTime) =
     Inr \<lparr>rows = rows grid, columns = columns grid,
          elems = map (\<lambda>g. g * (finalTime - initialTime) + initialTime) (elems grid)\<rparr>"
proof (cases "is_scalar grid")
  case True
  then have "length (elems grid) = 1"
    using assms(1) by (simp add: well_formed_def is_scalar_def)
  then obtain g where g: "elems grid = [g]"
    by (cases "elems grid") simp_all
  from True have "rows grid = 1" and "columns grid = 1"
    by (simp_all add: is_scalar_def numel_def)
  with g True show ?thesis
    by (simp add: createTimes_def binary_def scalar_def is_scalar_def numel_def
        comm [of "finalTime - initialTime"])
next
  case False
  then show ?thesis
    by (auto simp: createTimes_def binary_def scalar_def is_scalar_def numel_def
        comm [of "finalTime - initialTime"])
qed

lemma solve_outcome_Inr:
  assumes "outcome (solve ext it ft self guessOrig) = Inr sol"
  shows "\<exists>guess nlpFunc nlpResult nlpStats.
           solve_guess ext it ft self guessOrig = Inr guess
         \<and> nlpsol ext ''nlp'' (getOptimSolver (m_solver self)) (solve_nlp self)
              (solve_options (m_solver self)) = Inr nlpFunc
         \<and> nlpFunc (solve_arguments self guess) = Inr (nlpResult, nlpStats)
         \<and> solve_solution ext it ft self nlpResult nlpStats = Inr sol"
  using assms by (auto simp: solve_def Let_def split: sum.splits prod.splits)

lemma subscript_lookup:
  assumes "subscript vars key = (m, vars')"
  shows "map_of vars' key = Some m"
    and "map_of vars k = Some v \<Longrightarrow> map_of vars' k = Some v"
  using assms by (auto simp: subscript_def map_add_def split: option.splits)

lemma solve_solution_Inr:
  assumes "solve_solution ext it ft self nlpResult nlpStats = Inr sol"
  shows "\<exists>initialTime finalTime.
           at_key (variables sol) it = Inr initialTime
         \<and> at_key (variables sol) ft = Inr finalTime
         \<and> createTimes (m_grid self) initialTime finalTime = Inr (times_DM sol)
         \<and> stats sol = nlpStats"
proof -
  from assms obtain x expanded initialTime vars1 finalTime vars2 newTimes where
    s1: "subscript expanded it = (initialTime, vars1)" and
    s2: "subscript vars1 ft = (finalTime, vars2)" and
    t: "createTimes (m_grid self) initialTime finalTime = Inr newTimes" and
    sol: "sol = (createIterate ext (m_problem self))
                  \<lparr>variables := vars2, times_DM := newTimes, stats := nlpStats\<rparr>"
    by (auto simp: solve_solution_def split: sum.splits prod.splits)
  have "map_of vars1 it = Some initialTime"
    by (rule subscript_lookup(1) [OF s1])
  then have "map_of vars2 it = Some initialTime"
    by (rule subscript_lookup(2) [OF s2])
  moreover have "map_of vars2 ft = Some finalTime"
    by (rule subscript_lookup(1) [OF s2])
  ultimately show ?thesis
    using t sol by (auto simp: at_key_def)
qed

lemma subscript_present:
  "at_key vars key = Inr m \<Longrightarrow> subscript vars key = (m, vars)"
  by (simp add: at_key_def subscript_def split: option.splits)

lemma solve_solution_from_vector:
  fixes self :: "('k::linorder, 'a::{plus,minus,times}, 'e, 'v, 'p) Transcription"
  assumes "well_formed (m_grid self)" and comm: "\<And>x y :: 'a. x * y = y * x"
    and "at_key nlpResult ''x'' = Inr x"
    and "expand (m_vars self) x = Inr expanded"
    and "at_key expanded it = Inr (scalar t0)"
    and "at_key expanded ft = Inr (scalar t1)"
  shows "solve_solution ext it ft self nlpResult nlpStats =
     Inr ((createIterate ext (m_problem self))
            \<lparr>variables := expanded,
             times_DM := \<lparr>rows = rows (m_grid self), columns = columns (m_grid self),
                          elems = map (\<lambda>g. g * (t1 - t0) + t0) (elems (m_grid self))\<rparr>,
             stats := nlpStats\<rparr>)"
  using assms(3,4)
  by (simp add: solve_solution_def subscript_present [OF assms(5)] subscript_present [OF assms(6)]
      createTimes_scalars [OF assms(1) comm])

text \<open>
  Claim C3. For every grid and every pair of initial and final time values the
  time vector is \<open>grid \<times> (finalTime - initialTime) + initialTime\<close>, entry by entry
  and in the shape of the grid. When the solver function returns a vector \<open>x\<close>,
  \<^verbatim>\<open>solve\<close> returns the solution whose variables are the blocks expanded from \<open>x\<close>
  and whose times are this vector for the initial and the final time among these
  blocks; and the times of every solution that \<^verbatim>\<open>solve\<close> returns are this vector
  for the solution's own initial and final time. (Of the arithmetic of the
  scalars only this is asked: multiplication is commutative.)
\<close>

theorem times_formula:
  fixes self :: "('k::linorder, 'a::{plus,minus,times}, 'e, 'v, 'p) Transcription"
  assumes "well_formed (m_grid self)" and comm: "\<And>x y :: 'a. x * y = y * x"
  shows "createTimes (m_grid self) (scalar initialTime) (scalar finalTime) =
           Inr \<lparr>rows = rows (m_grid self), columns = columns (m_grid self),
                elems = map (\<lambda>g. g * (finalTime - initialTime) + initialTime)
                          (elems (m_grid self))\<rparr>
       \<and> (\<forall>resampled nlpFunc nlpResult nlpStats x expanded t0 t1.
             solve_guess ext it ft self guess = Inr resampled
             \<and> nlpsol ext ''nlp'' (getOptimSolver (m_solver self)) (solve_nlp self)
                 (solve_options (m_solver self)) = Inr nlpFunc
             \<and> nlpFunc (solve_arguments self resampled) = Inr (nlpResult, nlpStats)
             \<and> at_key nlpResult ''x'' = Inr x
             \<and> expand (m_vars self) x = Inr expanded
             \<and> at_key expanded it = Inr (scalar t0)
             \<and> at_key expanded ft = Inr (scalar t1)
           \<longrightarrow> (\<exists>sol. outcome (solve ext it ft self guess) = Inr sol
                 \<and> variables sol = expanded
                 \<and> times_DM sol =
                     \<lparr>rows = rows (m_grid self), columns = columns (m_grid self),
                      elems = map (\<lambda>g. g * (t1 - t0) + t0) (elems (m_grid self))\<rparr>))
       \<and> (\<forall>sol t0 t1.
             outcome (solve ext it ft self guess) = Inr sol
             \<and> at_key (variables sol) it = Inr (scalar t0)
             \<and> at_key (variables sol) ft = Inr (scalar t1)
           \<longrightarrow> times_DM sol =
                 \<lparr>rows = rows (m_grid self), columns = columns (m_grid self),
                  elems = map (\<lambda>g. g * (t1 - t0) + t0) (elems (m_grid self))\<rparr>)"
proof (intro conjI allI impI)
  show "createTimes (m_grid self) (scalar initialTime) (scalar finalTime) =
      Inr \<lparr>rows = rows (m_grid self), columns = columns (m_grid self),
           elems = map (\<lambda>g. g * (finalTime - initialTime) + initialTime)
                     (elems (m_grid self))\<rparr>"
    by (rule createTimes_scalars [OF assms])
next
  fix resampled nlpFunc nlpResult nlpStats x expanded t0 t1
  assume path: "solve_guess ext it ft self guess = Inr resampled
      \<and> nlpsol ext ''nlp'' (getOptimSolver (m_solver self)) (solve_nlp self)
          (solve_options (m_solver self)) = Inr nlpFunc
      \<and> nlpFunc (solve_arguments self resampled) = Inr (nlpResult, nlpStats)
      \<and> at_key nlpResult ''x'' = Inr x
      \<and> expand (m_vars self) x = Inr expanded
      \<and> at_key expanded it = Inr (scalar t0)
      \<and> at_key expanded ft = Inr (scalar t1)"
  let ?times = "\<lparr>rows = rows (m_grid self), columns = columns (m_grid self),
                 elems = map (\<lambda>g. g * (t1 - t0) + t0) (elems (m_grid self))\<rparr>"
  let ?sol = "(createIterate ext (m_problem self))
                \<lparr>variables := expanded, times_DM := ?times, stats := nlpStats\<rparr>"
  from path have pg: "solve_guess ext it ft self guess = Inr resampled"
    by (rule conjunct1)
  from path have pn: "nlpsol ext ''nlp'' (getOptimSolver (m_solver self)) (solve_nlp self)
      (solve_options (m_solver self)) = Inr nlpFunc"
    by (rule conjunct2 [THEN conjunct1])
  from path have pf: "nlpFunc (solve_arguments self resampled) = Inr (nlpResult, nlpStats)"
    by (rule conjunct2 [THEN conjunct2, THEN conjunct1])
  from path have px: "at_key nlpResult ''x'' = Inr x"
    by (rule conjunct2 [THEN conjunct2, THEN conjunct2, THEN conjunct1])
  from path have pe: "expand (m_vars self) x = Inr expanded"
    by (rule conjunct2 [THEN conjunct2, THEN conjunct2, THEN conjunct2, THEN conjunct1])
  from path have p0: "at_key expanded it = Inr (scalar t0)"
    by (rule conjunct2 [THEN conjunct2, THEN conjunct2, THEN conjunct2, THEN conjunct2,
        THEN conjunct1])
  from path have p1: "at_key expanded ft = Inr (scalar t1)"
    by (rule conjunct2 [THEN conjunct2, THEN conjunct2, THEN conjunct2, THEN conjunct2,
        THEN conjunct2])
  have built: "solve_solution ext it ft self nlpResult nlpStats = Inr ?sol"
    by (rule solve_solution_from_vector [OF assms px pe p0 p1])
  from pg pn pf have "outcome (solve ext it ft self guess) =
      solve_solution ext it ft self nlpResult nlpStats"
    by (simp add: solve_def Let_def)
  with built have out: "outcome (solve ext it ft self guess) = Inr ?sol"
    by (simp only:)
  show "\<exists>sol. outcome (solve ext it ft self guess) = Inr sol
      \<and> variables sol = expanded \<and> times_DM sol = ?times"
  proof (intro exI conjI)
    show "outcome (solve ext it ft self guess) = Inr ?sol"
      by (rule out)
    show "variables ?sol = expanded" and "times_DM ?sol = ?times"
      by simp_all
  qed
next
  fix sol t0 t1
  assume a: "outcome (solve ext it ft self guess) = Inr sol
      \<and> at_key (variables sol) it = Inr (scalar t0)
      \<and> at_key (variables sol) ft = Inr (scalar t1)"
  then obtain nlpResult nlpStats where
    "solve_solution ext it ft self nlpResult nlpStats = Inr sol"
    using solve_outcome_Inr by blast
  then obtain ti tf where
    "at_key (variables sol) it = Inr ti" "at_key (variables sol) ft = Inr tf"
    "createTimes (m_grid self) ti tf = Inr (times_DM sol)"
    using solve_solution_Inr by blast
  with a have "createTimes (m_grid self) (scalar t0) (scalar t1) = Inr (times_DM sol)"
    by simp
  then show "times_DM sol =
      \<lparr>rows = rows (m_grid self), columns = columns (m_grid self),
       elems = map (\<lambda>g. g * (t1 - t0) + t0) (elems (m_grid self))\<rparr>"
    by (simp add: createTimes_scalars [OF assms])
qed

theorem times_formula_witness:
  "well_formed (m_grid example_self)
   \<and> (\<forall>x y :: real. x * y = y * x)
   \<and> createTimes (m_grid example_self) (scalar 1) (scalar 3) =
       Inr \<lparr>rows = 1, columns = 3, elems = [1, 2, 3]\<rparr>
   \<and> at_key (variables example_guess) 0 = Inr (scalar 0)
   \<and> at_key (variables example_guess) 1 = Inr (scalar 2)
   \<and> solve_guess example_moving_collaborators 0 1 example_self example_guess =
       Inr (example_guess\<lparr>times_DM := \<lparr>rows = 1, columns = 3, elems = [0, 1, 2]\<rparr>\<rparr>)
   \<and> nlpsol example_moving_collaborators ''nlp'' (getOptimSolver (m_solver example_self))
       (solve_nlp example_self) (solve_options (m_solver example_self)) =
       Inr example_moving_solver_function
   \<and> example_moving_solver_function (solve_arguments example_self
         (example_guess\<lparr>times_DM := \<lparr>rows = 1, columns = 3, elems = [0, 1, 2]\<rparr>\<rparr>)) =
       Inr ([(''x'', \<lparr>rows = 5, columns = 1, elems = [1, 3, 7, 8, 9]\<rparr>)],
            [(''success'', Value ''true'')])
   \<and> expand (m_vars example_self) \<lparr>rows = 5, columns = 1, elems = [1 :: real, 3, 7, 8, 9]\<rparr> =
       Inr [(0, scalar 1), (1, scalar 3), (2, \<lparr>rows = 1, columns = 3, elems = [7, 8, 9]\<rparr>)]
   \<and> (\<exists>sol. outcome (solve example_moving_collaborators 0 1 example_self example_guess) = Inr sol
         \<and> variables sol =
             [(0, scalar 1), (1, scalar 3), (2, \<lparr>rows = 1, columns = 3, elems = [7, 8, 9]\<rparr>)]
         \<and> times_DM sol = \<lparr>rows = 1, columns = 3, elems = [1, 2, 3]\<rparr>)"
proof -
  let ?resampled = "example_guess\<lparr>times_DM := \<lparr>rows = 1, columns = 3, elems = [0, 1, 2]\<rparr>\<rparr>"
  let ?x = "\<lparr>rows = 5, columns = 1, elems = [1, 3, 7, 8, 9 :: real]\<rparr>"
  let ?expanded = "[(0 :: nat, scalar (1 :: real)), (1, scalar 3),
                    (2, \<lparr>rows = 1, columns = 3, elems = [7, 8, 9]\<rparr>)]"
  have wf: "well_formed (m_grid example_self)"
    by (simp add: example_self_def well_formed_def numel_def)
  have comm: "x * y = y * x" for x y :: real
    by (rule mult.commute)
  have g0: "at_key (variables example_guess) 0 = Inr (scalar 0)"
    and g1: "at_key (variables example_guess) 1 = Inr (scalar 2)"
    by (simp_all add: example_guess_def at_key_def)
  have prepared: "solve_guess example_moving_collaborators 0 1 example_self example_guess =
      Inr ?resampled"
    by (simp add: solve_guess_def example_moving_collaborators_def example_self_def
        example_guess_def at_key_def createTimes_def binary_def is_scalar_def numel_def scalar_def)
  have built: "nlpsol example_moving_collaborators ''nlp'' (getOptimSolver (m_solver example_self))
      (solve_nlp example_self) (solve_options (m_solver example_self)) =
      Inr example_moving_solver_function"
    by (simp add: example_moving_collaborators_def)
  have returned: "example_moving_solver_function (solve_arguments example_self ?resampled) =
      Inr ([(''x'', ?x)], [(''success'', Value ''true'')])"
    by (simp add: example_moving_solver_function_def)
  have vector: "at_key [(''x'', ?x)] ''x'' = Inr ?x"
    by (simp add: at_key_def)
  have expanded: "expand (m_vars example_self) ?x = Inr ?expanded"
    by (simp add: example_self_def expand_def getSortedVarKeys_def slice_def reshape_def
        numel_def scalar_def)
  have e0: "at_key ?expanded 0 = Inr (scalar 1)" and e1: "at_key ?expanded 1 = Inr (scalar 3)"
    by (simp_all add: at_key_def)
  note formula = times_formula [OF wf comm, of 1 3 example_moving_collaborators 0 1 example_guess]
  from formula have "createTimes (m_grid example_self) (scalar 1) (scalar 3) =
      Inr \<lparr>rows = rows (m_grid example_self), columns = columns (m_grid example_self),
           elems = map (\<lambda>g. g * (3 - 1) + 1) (elems (m_grid example_self))\<rparr>"
    by (rule conjunct1)
  then have first: "createTimes (m_grid example_self) (scalar 1) (scalar 3) =
      Inr \<lparr>rows = 1, columns = 3, elems = [1, 2, 3]\<rparr>"
    by (simp add: example_self_def)
  have path: "solve_guess example_moving_collaborators 0 1 example_self example_guess =
        Inr ?resampled
      \<and> nlpsol example_moving_collaborators ''nlp'' (getOptimSolver (m_solver example_self))
          (solve_nlp example_self) (solve_options (m_solver example_self)) =
          Inr example_moving_solver_function
      \<and> example_moving_solver_function (solve_arguments example_self ?resampled) =
          Inr ([(''x'', ?x)], [(''success'', Value ''true'')])
      \<and> at_key [(''x'', ?x)] ''x'' = Inr ?x
      \<and> expand (m_vars example_self) ?x = Inr ?expanded
      \<and> at_key ?expanded 0 = Inr (scalar 1)
      \<and> at_key ?expanded 1 = Inr (scalar 3)"
    using prepared built returned vector expanded e0 e1 by (intro conjI)
  have "\<exists>sol. outcome (solve example_moving_collaborators 0 1 example_self example_guess) = Inr sol
      \<and> variables sol = ?expanded
      \<and> times_DM sol =
          \<lparr>rows = rows (m_grid example_self), columns = columns (m_grid example_self),
           elems = map (\<lambda>g. g * (3 - 1) + 1) (elems (m_grid example_self))\<rparr>"
    by (rule formula [THEN conjunct2, THEN conjunct1, rule_format, OF path])
  moreover have "\<lparr>rows = rows (m_grid example_self), columns = columns (m_grid example_self),
      elems = map (\<lambda>g. g * (3 - 1) + 1) (elems (m_grid example_self))\<rparr> =
      \<lparr>rows = 1, columns = 3, elems = [1, 2, 3]\<rparr>"
    by (simp add: example_self_def)
  ultimately have second: "\<exists>sol.
      outcome (solve example_moving_collaborators 0 1 example_self example_guess) = Inr sol
      \<and> variables sol = ?expanded
      \<and> times_DM sol = \<lparr>rows = 1, columns = 3, elems = [1, 2, 3]\<rparr>"
    by (simp only:)
  have all_comm: "\<forall>x y :: real. x * y = y * x"
    by (simp add: mult.commute)
  from wf all_comm first g0 g1 prepared built returned expanded second show ?thesis
    by (intro conjI)
qed

subsection \<open>Bounds\<close>

lemma resolve_in_range:
  assumes "resolve len ix = Inr rs" and "r \<in> set rs"
  shows "r < len"
proof (cases ix)
  case (Index i)
  with assms show ?thesis
    by (auto split: if_splits)
next
  case (Slice start stop)
  with assms obtain x where "r = nat x" and "0 \<le> x" and "x < int len"
    by (auto simp: Let_def split: if_splits)
  then show ?thesis
    by simp
next
  case SliceAll
  with assms show ?thesis
    by auto
qed

lemma position_in_storage:
  assumes "well_formed m" and "r < rows m" and "c < columns m"
  shows "r + c * rows m < length (elems m)"
proof -
  have "r + c * rows m < rows m + c * rows m"
    using assms(2) by simp
  also have "\<dots> = Suc c * rows m"
    by simp
  also have "\<dots> \<le> columns m * rows m"
    using assms(3) by (intro mult_le_mono1) simp
  finally show ?thesis
    using assms(1) by (simp add: well_formed_def numel_def mult.commute)
qed

lemma entry_assign:
  assumes "well_formed m" and "r < rows m" and "c < columns m"
  shows "entry (assign m rs cs v) r c = (if r \<in> set rs \<and> c \<in> set cs then v else entry m r c)"
  using position_in_storage [OF assms] assms(2)
  by (simp add: entry_def assign_def)

lemma assign_region_present:
  assumes "at_key vars var = Inr m"
    and "resolve (rows m) rowIndices = Inr rs"
    and "resolve (columns m) columnIndices = Inr cs"
  shows "assign_region vars var rowIndices columnIndices v =
           Inr (AList.update var (assign m rs cs v) vars)"
  using assms by (auto simp: assign_region_def subscript_def at_key_def split: option.splits)

lemma at_key_update: "at_key (AList.update key v vars) key = Inr v"
  by (simp add: at_key_def update_conv')

text \<open>
  Claim C4. For a block of the bound matrices and a selection of rows and columns
  within it, \<^verbatim>\<open>setVariableBounds\<close> succeeds; every selected entry of the lower
  bounds becomes \<open>- \<infinity>\<close> and of the upper bounds \<open>\<infinity>\<close> when the bounds are not set,
  and the lower and upper value of the bounds when they are set. The blocks keep
  their shape and the entries outside the selection keep their values.
\<close>

theorem setVariableBounds_writes:
  fixes self :: "('k, 'a::{uminus,infinity}, 'e, 'v, 'p) Transcription"
  assumes "at_key (m_lowerBounds self) var = Inr lowerBlock"
    and "at_key (m_upperBounds self) var = Inr upperBlock"
    and "well_formed lowerBlock" and "well_formed upperBlock"
    and "rows upperBlock = rows lowerBlock" and "columns upperBlock = columns lowerBlock"
    and "resolve (rows lowerBlock) rowIndices = Inr rs"
    and "resolve (columns lowerBlock) columnIndices = Inr cs"
  shows "\<exists>self' lowerBlock' upperBlock'.
           setVariableBounds isSet var rowIndices columnIndices bounds self = Inr self'
         \<and> at_key (m_lowerBounds self') var = Inr lowerBlock'
         \<and> at_key (m_upperBounds self') var = Inr upperBlock'
         \<and> rows lowerBlock' = rows lowerBlock \<and> columns lowerBlock' = columns lowerBlock
         \<and> rows upperBlock' = rows upperBlock \<and> columns upperBlock' = columns upperBlock
         \<and> (\<forall>r \<in> set rs. \<forall>c \<in> set cs.
               entry lowerBlock' r c = (if isSet bounds then lower bounds else - \<infinity>)
             \<and> entry upperBlock' r c = (if isSet bounds then upper bounds else \<infinity>))
         \<and> (\<forall>r < rows lowerBlock. \<forall>c < columns lowerBlock.
               \<not> (r \<in> set rs \<and> c \<in> set cs) \<longrightarrow>
                 entry lowerBlock' r c = entry lowerBlock r c
               \<and> entry upperBlock' r c = entry upperBlock r c)"
proof -
  let ?lo = "if isSet bounds then lower bounds else - \<infinity>"
  let ?up = "if isSet bounds then upper bounds else \<infinity>"
  let ?lb = "assign lowerBlock rs cs ?lo"
  let ?ub = "assign upperBlock rs cs ?up"
  let ?self = "self\<lparr>m_lowerBounds := AList.update var ?lb (m_lowerBounds self),
                    m_upperBounds := AList.update var ?ub (m_upperBounds self)\<rparr>"
  have lo: "assign_region (m_lowerBounds self) var rowIndices columnIndices v =
      Inr (AList.update var (assign lowerBlock rs cs v) (m_lowerBounds self))" for v
    by (rule assign_region_present [OF assms(1,7,8)])
  have up: "assign_region (m_upperBounds self) var rowIndices columnIndices v =
      Inr (AList.update var (assign upperBlock rs cs v) (m_upperBounds self))" for v
    using assms(5,6,7,8) by (intro assign_region_present [OF assms(2)]) simp_all
  have run: "setVariableBounds isSet var rowIndices columnIndices bounds self = Inr ?self"
    by (simp add: setVariableBounds_def lo up)
  have inside: "entry ?lb r c = ?lo \<and> entry ?ub r c = ?up"
    if "r \<in> set rs" and "c \<in> set cs" for r c
  proof -
    have "r < rows lowerBlock" and "c < columns lowerBlock"
      using that resolve_in_range [OF assms(7)] resolve_in_range [OF assms(8)] by simp_all
    then show ?thesis
      using that assms(3,4,5,6) by (simp add: entry_assign)
  qed
  have outside: "entry ?lb r c = entry lowerBlock r c \<and> entry ?ub r c = entry upperBlock r c"
    if "r < rows lowerBlock" and "c < columns lowerBlock" and "\<not> (r \<in> set rs \<and> c \<in> set cs)"
    for r c
    using that assms(3,4,5,6) by (auto simp: entry_assign)
  have "at_key (m_lowerBounds ?self) var = Inr ?lb" and "at_key (m_upperBounds ?self) var = Inr ?ub"
    by (simp_all add: at_key_update)
  moreover have "rows ?lb = rows lowerBlock" and "columns ?lb = columns lowerBlock"
    and "rows ?ub = rows upperBlock" and "columns ?ub = columns upperBlock"
    by (simp_all add: assign_def)
  ultimately show ?thesis
    using run inside outside by blast
qed

theorem setVariableBounds_writes_witness:
  "at_key (m_lowerBounds example_building) 2 =
     Inr \<lparr>rows = 1, columns = 3, elems = [Finite 0, Finite 0, Finite 0]\<rparr>
   \<and> at_key (m_upperBounds example_building) 2 =
     Inr \<lparr>rows = 1, columns = 3, elems = [Finite 0, Finite 0, Finite 0]\<rparr>
   \<and> well_formed \<lparr>rows = 1, columns = 3, elems = [Finite 0, Finite 0, Finite 0]\<rparr>
   \<and> resolve 1 SliceAll = Inr [0]
   \<and> resolve 3 (Index (- 1)) = Inr [2]
   \<and> \<not> example_isSet \<lparr>lower = NaN, upper = NaN\<rparr>
   \<and> (\<exists>self' lowerBlock' upperBlock'.
         setVariableBounds example_isSet 2 SliceAll (Index (- 1)) \<lparr>lower = NaN, upper = NaN\<rparr>
           example_building = Inr self'
       \<and> at_key (m_lowerBounds self') 2 = Inr lowerBlock'
       \<and> at_key (m_upperBounds self') 2 = Inr upperBlock'
       \<and> entry lowerBlock' 0 2 = MinusInfinity \<and> entry upperBlock' 0 2 = PlusInfinity
       \<and> entry lowerBlock' 0 1 = Finite 0 \<and> entry upperBlock' 0 1 = Finite 0)
   \<and> example_isSet \<lparr>lower = Finite 5, upper = Finite 1\<rparr>
   \<and> (\<exists>self' lowerBlock' upperBlock'.
         setVariableBounds example_isSet 2 SliceAll (Index (- 1))
           \<lparr>lower = Finite 5, upper = Finite 1\<rparr> example_building = Inr self'
       \<and> at_key (m_lowerBounds self') 2 = Inr lowerBlock'
       \<and> at_key (m_upperBounds self') 2 = Inr upperBlock'
       \<and> entry lowerBlock' 0 2 = Finite 5 \<and> entry upperBlock' 0 2 = Finite 1)"
proof -
  let ?block = "\<lparr>rows = 1, columns = 3, elems = [Finite 0, Finite 0, Finite 0]\<rparr>"
  have wf: "well_formed ?block"
    by (simp add: well_formed_def numel_def)
  have rs: "resolve (rows ?block) SliceAll = Inr [0]"
    by simp
  have cs: "resolve (columns ?block) (Index (- 1)) = Inr [2]"
    by simp
  have unset: "\<not> example_isSet \<lparr>lower = NaN, upper = NaN\<rparr>"
    and set: "example_isSet \<lparr>lower = Finite 5, upper = Finite 1\<rparr>"
    by (simp_all add: example_isSet_def)
  note writes = setVariableBounds_writes [OF example_building_blocks wf wf refl refl rs cs,
      of example_isSet]
  from writes [of "\<lparr>lower = NaN, upper = NaN\<rparr>"] obtain self1 lb1 ub1 where
    run1: "setVariableBounds example_isSet 2 SliceAll (Index (- 1)) \<lparr>lower = NaN, upper = NaN\<rparr>
        example_building = Inr self1"
      "at_key (m_lowerBounds self1) 2 = Inr lb1" "at_key (m_upperBounds self1) 2 = Inr ub1" and
    in1: "\<forall>r \<in> set [0]. \<forall>c \<in> set [2].
        entry lb1 r c = (if example_isSet \<lparr>lower = NaN, upper = NaN\<rparr>
                         then lower \<lparr>lower = NaN, upper = NaN\<rparr> else - \<infinity>)
      \<and> entry ub1 r c = (if example_isSet \<lparr>lower = NaN, upper = NaN\<rparr>
                         then upper \<lparr>lower = NaN, upper = NaN\<rparr> else \<infinity>)" and
    out1: "\<forall>r < rows ?block. \<forall>c < columns ?block. \<not> (r \<in> set [0] \<and> c \<in> set [2]) \<longrightarrow>
        entry lb1 r c = entry ?block r c \<and> entry ub1 r c = entry ?block r c"
    by blast
  from in1 unset have "entry lb1 0 2 = MinusInfinity" and "entry ub1 0 2 = PlusInfinity"
    by (simp_all add: infinity_double_def)
  moreover have "entry ?block 0 1 = Finite 0"
    by (simp add: entry_def)
  with out1 [rule_format, of 0 1] have "entry lb1 0 1 = Finite 0" and "entry ub1 0 1 = Finite 0"
    by simp_all
  ultimately have first: "\<exists>self' lowerBlock' upperBlock'.
      setVariableBounds example_isSet 2 SliceAll (Index (- 1)) \<lparr>lower = NaN, upper = NaN\<rparr>
        example_building = Inr self'
      \<and> at_key (m_lowerBounds self') 2 = Inr lowerBlock'
      \<and> at_key (m_upperBounds self') 2 = Inr upperBlock'
      \<and> entry lowerBlock' 0 2 = MinusInfinity \<and> entry upperBlock' 0 2 = PlusInfinity
      \<and> entry lowerBlock' 0 1 = Finite 0 \<and> entry upperBlock' 0 1 = Finite 0"
    using run1 by blast
  from writes [of "\<lparr>lower = Finite 5, upper = Finite 1\<rparr>"] obtain self2 lb2 ub2 where
    run2: "setVariableBounds example_isSet 2 SliceAll (Index (- 1))
        \<lparr>lower = Finite 5, upper = Finite 1\<rparr> example_building = Inr self2"
      "at_key (m_lowerBounds self2) 2 = Inr lb2" "at_key (m_upperBounds self2) 2 = Inr ub2" and
    in2: "\<forall>r \<in> set [0]. \<forall>c \<in> set [2].
        entry lb2 r c = (if example_isSet \<lparr>lower = Finite 5, upper = Finite 1\<rparr>
                         then lower \<lparr>lower = Finite 5, upper = Finite 1\<rparr> else - \<infinity>)
      \<and> entry ub2 r c = (if example_isSet \<lparr>lower = Finite 5, upper = Finite 1\<rparr>
                         then upper \<lparr>lower = Finite 5, upper = Finite 1\<rparr> else \<infinity>)"
    by blast
  from in2 set have "entry lb2 0 2 = Finite 5" and "entry ub2 0 2 = Finite 1"
    by simp_all
  with run2 have second: "\<exists>self' lowerBlock' upperBlock'.
      setVariableBounds example_isSet 2 SliceAll (Index (- 1))
        \<lparr>lower = Finite 5, upper = Finite 1\<rparr> example_building = Inr self'
      \<and> at_key (m_lowerBounds self') 2 = Inr lowerBlock'
      \<and> at_key (m_upperBounds self') 2 = Inr upperBlock'
      \<and> entry lowerBlock' 0 2 = Finite 5 \<and> entry upperBlock' 0 2 = Finite 1"
    by blast
  from rs cs have "resolve 1 SliceAll = Inr [0]" and "resolve 3 (Index (- 1)) = Inr [2]"
    by simp_all
  with example_building_blocks wf unset set first second show ?thesis
    by blast
qed

lemma isl_assign_region:
  "isl (assign_region vars var rowIndices columnIndices v) \<longleftrightarrow>
     isl (resolve (rows (fst (subscript vars var))) rowIndices)
   \<or> isl (resolve (columns (fst (subscript vars var))) columnIndices)"
  by (auto simp: assign_region_def split: prod.splits sum.splits)

lemma isl_two_steps:
  "isl (case a of Inl e \<Rightarrow> Inl e
        | Inr x \<Rightarrow> (case b of Inl e \<Rightarrow> Inl e | Inr y \<Rightarrow> Inr (f x y))) \<longleftrightarrow> isl a \<or> isl b"
  by (cases a; cases b) simp_all

lemma isl_setVariableBounds:
  "isl (setVariableBounds isSet var rowIndices columnIndices bounds self) \<longleftrightarrow>
     isl (resolve (rows (fst (subscript (m_lowerBounds self) var))) rowIndices)
   \<or> isl (resolve (columns (fst (subscript (m_lowerBounds self) var))) columnIndices)
   \<or> isl (resolve (rows (fst (subscript (m_upperBounds self) var))) rowIndices)
   \<or> isl (resolve (columns (fst (subscript (m_upperBounds self) var))) columnIndices)"
  by (simp add: setVariableBounds_def isl_two_steps isl_assign_region disj_ac)

lemma solve_invoked_cases:
  "invoked (solve ext it ft self guessOrig) = [] \<or>
   (\<exists>guess. solve_guess ext it ft self guessOrig = Inr guess
      \<and> invoked (solve ext it ft self guessOrig) = [solve_arguments self guess])"
  by (auto simp: solve_def Let_def split: sum.splits prod.splits)

lemma solve_guess_ignores_bounds:
  "solve_guess ext it ft (self\<lparr>m_lowerBounds := lb, m_upperBounds := ub\<rparr>) guessOrig =
   solve_guess ext it ft self guessOrig"
  by (simp add: solve_guess_def split: sum.splits)

lemma solve_nlp_ignores_bounds:
  "solve_nlp (self\<lparr>m_lowerBounds := lb, m_upperBounds := ub\<rparr>) = solve_nlp self"
  by (simp add: solve_nlp_def)

lemma length_invoked_ignores_bounds:
  "length (invoked (solve ext it ft (self\<lparr>m_lowerBounds := lb, m_upperBounds := ub\<rparr>) guessOrig)) =
   length (invoked (solve ext it ft self guessOrig))"
  by (simp add: solve_def solve_guess_ignores_bounds solve_nlp_ignores_bounds Let_def
      split: sum.splits prod.splits)

text \<open>
  Claim C5. Lower and upper bounds are never compared. Whether
  \<^verbatim>\<open>setVariableBounds\<close> accepts a bound specification does not depend on its two
  numbers; whether \<^verbatim>\<open>solve\<close> calls the solver function does not depend on the bound
  matrices; and every call of the solver function receives the flattened lower
  and upper bound matrices as they are.
\<close>

theorem bounds_never_compared:
  fixes self :: "('k::linorder, 'a::{plus,minus,times}, 'e, 'v, 'p) Transcription"
    and building :: "('k, 'b::{uminus,infinity}, 'e, 'v, 'p) Transcription"
  shows "isl (setVariableBounds isSet var rowIndices columnIndices bounds building) =
           isl (setVariableBounds isSet var rowIndices columnIndices bounds' building)
       \<and> length (invoked (solve ext it ft (self\<lparr>m_lowerBounds := lb, m_upperBounds := ub\<rparr>) guessOrig))
           = length (invoked (solve ext it ft self guessOrig))
       \<and> (\<forall>arguments \<in> set (invoked (solve ext it ft self guessOrig)).
             at_key arguments ''lbx'' = Inr (flatten (m_lowerBounds self))
           \<and> at_key arguments ''ubx'' = Inr (flatten (m_upperBounds self)))"
proof (intro conjI ballI)
  show "isl (setVariableBounds isSet var rowIndices columnIndices bounds building) =
      isl (setVariableBounds isSet var rowIndices columnIndices bounds' building)"
    by (simp only: isl_setVariableBounds)
  show "length (invoked (solve ext it ft (self\<lparr>m_lowerBounds := lb, m_upperBounds := ub\<rparr>) guessOrig))
      = length (invoked (solve ext it ft self guessOrig))"
    by (rule length_invoked_ignores_bounds)
next
  fix arguments
  assume "arguments \<in> set (invoked (solve ext it ft self guessOrig))"
  then obtain guess where "arguments = solve_arguments self guess"
    using solve_invoked_cases [of ext it ft self guessOrig] by auto
  then show "at_key arguments ''lbx'' = Inr (flatten (m_lowerBounds self))"
    and "at_key arguments ''ubx'' = Inr (flatten (m_upperBounds self))"
    by (simp_all add: solve_arguments_def at_key_def)
qed

theorem bounds_never_compared_witness:
  "\<not> isl (setVariableBounds example_isSet 2 SliceAll (Index (- 1))
            \<lparr>lower = Finite 5, upper = Finite 1\<rparr> example_building)
   \<and> invoked (solve example_collaborators 0 1 example_self example_guess) =
       [solve_arguments example_self example_guess]
   \<and> at_key (solve_arguments example_self example_guess) ''lbx'' =
       Inr \<lparr>rows = 5, columns = 1, elems = [0, 1, 5, 5, 5]\<rparr>
   \<and> at_key (solve_arguments example_self example_guess) ''ubx'' =
       Inr \<lparr>rows = 5, columns = 1, elems = [0, 4, 1, 1, 1]\<rparr>
   \<and> outcome (solve example_collaborators 0 1 example_self example_guess) =
       Inr example_solution_value"
proof -
  note never = bounds_never_compared [where isSet = example_isSet and var = 2
      and rowIndices = SliceAll and columnIndices = "Index (- 1)"
      and bounds = "\<lparr>lower = Finite 5, upper = Finite 1\<rparr>"
      and bounds' = "\<lparr>lower = Finite 0, upper = Finite 1\<rparr>"
      and building = example_building and ext = example_collaborators and it = 0 and ft = 1
      and self = example_self and guessOrig = example_guess]
  have "\<not> isl (setVariableBounds example_isSet 2 SliceAll (Index (- 1))
      \<lparr>lower = Finite 0, upper = Finite 1\<rparr> example_building)"
    by (simp add: setVariableBounds_def example_isSet_def example_building_def
        assign_region_def subscript_def)
  with never have accepted: "\<not> isl (setVariableBounds example_isSet 2 SliceAll (Index (- 1))
      \<lparr>lower = Finite 5, upper = Finite 1\<rparr> example_building)"
    by blast
  have calls: "invoked (solve example_collaborators 0 1 example_self example_guess) =
      [solve_arguments example_self example_guess]"
    by (rule example_invoked)
  with never have
    "at_key (solve_arguments example_self example_guess) ''lbx'' =
       Inr (flatten (m_lowerBounds example_self))"
    "at_key (solve_arguments example_self example_guess) ''ubx'' =
       Inr (flatten (m_upperBounds example_self))"
    by simp_all
  moreover have "flatten (m_lowerBounds example_self) =
      \<lparr>rows = 5, columns = 1, elems = [0, 1, 5, 5, 5]\<rparr>"
    and "flatten (m_upperBounds example_self) =
      \<lparr>rows = 5, columns = 1, elems = [0, 4, 1, 1, 1]\<rparr>"
    by (simp_all add: example_self_def flatten_def getSortedVarKeys_def veccat_def numel_def
        scalar_def)
  ultimately show ?thesis
    using accepted calls example_outcome by simp
qed

subsection \<open>The call of the solver\<close>

lemma solve_after_solver:
  assumes "solve_guess ext it ft self guessOrig = Inr guess"
    and "nlpsol ext ''nlp'' (getOptimSolver (m_solver self)) (solve_nlp self)
           (solve_options (m_solver self)) = Inr nlpFunc"
    and "nlpFunc (solve_arguments self guess) = Inr (nlpResult, nlpStats)"
  shows "solve ext it ft self guessOrig =
           \<lparr>outcome = solve_solution ext it ft self nlpResult nlpStats,
            constructed = [(''nlp'', getOptimSolver (m_solver self), solve_nlp self,
                            solve_options (m_solver self))],
            invoked = [solve_arguments self guess],
            self_after = self\<rparr>"
  using assms by (simp add: solve_def Let_def)

lemma length_invoked_le: "length (invoked (solve ext it ft self guessOrig)) \<le> 1"
  using solve_invoked_cases [of ext it ft self guessOrig] by auto

lemma solve_solution_ignores_stats:
  "isl (solve_solution ext it ft self nlpResult nlpStats) =
   isl (solve_solution ext it ft self nlpResult nlpStats')"
  by (simp add: solve_solution_def split: sum.splits prod.splits)

text \<open>
  Claim C6. \<^verbatim>\<open>solve\<close> calls the solver function at most once, for every guess. When
  the guess has been resampled, the solver function has been built and its call
  returns, it has been called exactly once, with the flattened guess; the outcome
  of \<^verbatim>\<open>solve\<close> is the solution built from the returned vector, whether \<^verbatim>\<open>solve\<close>
  throws does not depend on the statistics that the solver reports, and a
  solution that is returned carries exactly these statistics.
\<close>

theorem solve_once_without_retry:
  fixes self :: "('k::linorder, 'a::{plus,minus,times}, 'e, 'v, 'p) Transcription"
  assumes "solve_guess ext it ft self guessOrig = Inr guess"
    and "nlpsol ext ''nlp'' (getOptimSolver (m_solver self)) (solve_nlp self)
           (solve_options (m_solver self)) = Inr nlpFunc"
    and "nlpFunc (solve_arguments self guess) = Inr (nlpResult, nlpStats)"
  shows "invoked (solve ext it ft self guessOrig) = [solve_arguments self guess]
       \<and> length (constructed (solve ext it ft self guessOrig)) = 1
       \<and> outcome (solve ext it ft self guessOrig) =
           solve_solution ext it ft self nlpResult nlpStats
       \<and> isl (outcome (solve ext it ft self guessOrig)) =
           isl (solve_solution ext it ft self nlpResult otherStats)
       \<and> (\<forall>sol. outcome (solve ext it ft self guessOrig) = Inr sol \<longrightarrow> stats sol = nlpStats)
       \<and> length (invoked (solve ext it ft self anyGuess)) \<le> 1"
proof -
  have run: "solve ext it ft self guessOrig =
      \<lparr>outcome = solve_solution ext it ft self nlpResult nlpStats,
       constructed = [(''nlp'', getOptimSolver (m_solver self), solve_nlp self,
                       solve_options (m_solver self))],
       invoked = [solve_arguments self guess],
       self_after = self\<rparr>"
    by (rule solve_after_solver [OF assms])
  have "stats sol = nlpStats" if "solve_solution ext it ft self nlpResult nlpStats = Inr sol" for sol
    using solve_solution_Inr [OF that] by blast
  then show ?thesis
    using solve_solution_ignores_stats [of ext it ft self nlpResult nlpStats otherStats]
      length_invoked_le [of ext it ft self anyGuess]
    by (simp add: run)
qed

theorem solve_once_without_retry_witness:
  "solve_guess example_collaborators 0 1 example_self example_guess =
     Inr (example_guess\<lparr>times_DM := \<lparr>rows = 1, columns = 3, elems = [0, 1, 2]\<rparr>\<rparr>)
   \<and> nlpsol example_collaborators ''nlp'' (getOptimSolver (m_solver example_self))
       (solve_nlp example_self) (solve_options (m_solver example_self)) =
       Inr example_solver_function
   \<and> example_solver_function (solve_arguments example_self
         (example_guess\<lparr>times_DM := \<lparr>rows = 1, columns = 3, elems = [0, 1, 2]\<rparr>\<rparr>)) =
       Inr ([(''x'', \<lparr>rows = 5, columns = 1, elems = [0, 2, 7, 8, 9]\<rparr>)],
            [(''success'', Value ''false''),
             (''return_status'', Value ''Maximum_Iterations_Exceeded'')])
   \<and> invoked (solve example_collaborators 0 1 example_self example_guess) =
       [solve_arguments example_self
          (example_guess\<lparr>times_DM := \<lparr>rows = 1, columns = 3, elems = [0, 1, 2]\<rparr>\<rparr>)]
   \<and> outcome (solve example_collaborators 0 1 example_self example_guess) =
       Inr example_solution_value
   \<and> stats example_solution_value =
       [(''success'', Value ''false''),
        (''return_status'', Value ''Maximum_Iterations_Exceeded'')]"
proof -
  let ?guess = "example_guess\<lparr>times_DM := \<lparr>rows = 1, columns = 3, elems = [0, 1, 2]\<rparr>\<rparr>"
  let ?stats = "[(''success'', Value ''false''),
                 (''return_status'', Value ''Maximum_Iterations_Exceeded'')]"
  have h2: "nlpsol example_collaborators ''nlp'' (getOptimSolver (m_solver example_self))
      (solve_nlp example_self) (solve_options (m_solver example_self)) =
      Inr example_solver_function"
    by (simp add: example_collaborators_def)
  have same: "solve_arguments example_self ?guess = solve_arguments example_self example_guess"
    by (simp add: solve_arguments_def)
  have h3: "example_solver_function (solve_arguments example_self ?guess) =
      Inr ([(''x'', \<lparr>rows = 5, columns = 1, elems = [0, 2, 7, 8, 9]\<rparr>)], ?stats)"
    unfolding same by (simp add: example_solver_function_def example_arguments)
  note once = solve_once_without_retry [OF example_guess_prepared h2 h3]
  from once have calls: "invoked (solve example_collaborators 0 1 example_self example_guess) =
      [solve_arguments example_self ?guess]"
    by (rule conjunct1)
  from once have "outcome (solve example_collaborators 0 1 example_self example_guess) =
      solve_solution example_collaborators 0 1 example_self
        [(''x'', \<lparr>rows = 5, columns = 1, elems = [0, 2, 7, 8, 9]\<rparr>)] ?stats"
    by blast
  then have result: "outcome (solve example_collaborators 0 1 example_self example_guess) =
      Inr example_solution_value"
    by (simp only: example_solution example_solution_value_def)
  have "stats example_solution_value = ?stats"
    by (simp add: example_solution_value_def)
  with example_guess_prepared h2 h3 calls result show ?thesis
    by blast
qed

lemma constructed_cases:
  "constructed (solve ext it ft self guessOrig) = [] \<or>
   constructed (solve ext it ft self guessOrig) =
     [(''nlp'', getOptimSolver (m_solver self), solve_nlp self, solve_options (m_solver self))]"
  by (auto simp: solve_def Let_def split: sum.splits prod.splits)

lemma constructed_after_guess:
  assumes "solve_guess ext it ft self guessOrig = Inr guess"
  shows "constructed (solve ext it ft self guessOrig) =
     [(''nlp'', getOptimSolver (m_solver self), solve_nlp self, solve_options (m_solver self))]"
  using assms by (auto simp: solve_def Let_def split: sum.splits prod.splits)

text \<open>
  With no plug-in option the solver options are not handed over.
\<close>

lemma solve_options_without_plugin_options:
  "getPluginOptions solver = [] \<Longrightarrow> solve_options solver = []"
  by (simp add: solve_options_def)

text \<open>
  Claim C7, as stated: the solver's dictionaries reach \<^verbatim>\<open>casadi::nlpsol\<close> unmodified.
  On the small instance the dictionary handed over is neither the plug-in options
  nor the solver options.
\<close>

theorem options_passed_unmodified_counterexample:
  "getPluginOptions (m_solver example_self) = [(''print_time'', Value ''false'')]
   \<and> getSolverOptions (m_solver example_self) = [(''max_iter'', Value ''50'')]
   \<and> constructed (solve example_collaborators 0 1 example_self example_guess) =
       [(''nlp'', ''ipopt'', solve_nlp example_self,
         [(''print_time'', Value ''false''), (''ipopt'', Dict [(''max_iter'', Value ''50'')])])]
   \<and> [(''print_time'', Value ''false''), (''ipopt'', Dict [(''max_iter'', Value ''50'')])]
       \<noteq> getPluginOptions (m_solver example_self)
   \<and> [(''print_time'', Value ''false''), (''ipopt'', Dict [(''max_iter'', Value ''50'')])]
       \<noteq> getSolverOptions (m_solver example_self)"
proof -
  have plugin: "getPluginOptions (m_solver example_self) = [(''print_time'', Value ''false'')]"
    and solver: "getSolverOptions (m_solver example_self) = [(''max_iter'', Value ''50'')]"
    by (simp_all add: example_self_def)
  have "[(''print_time'', Value ''false''), (''ipopt'', Dict [(''max_iter'', Value ''50'')])]
      \<noteq> getPluginOptions (m_solver example_self)"
    and "[(''print_time'', Value ''false''), (''ipopt'', Dict [(''max_iter'', Value ''50'')])]
      \<noteq> getSolverOptions (m_solver example_self)"
    unfolding plugin solver by simp_all
  with plugin solver example_constructed show ?thesis
    by (intro conjI)
qed

text \<open>
  Claim C7, amended. When the plug-in options are not empty, \<^verbatim>\<open>casadi::nlpsol\<close> is
  called with the solver's name and with the plug-in options in which the entry
  under the solver's name is the dictionary of solver options, unchanged; every
  other plug-in option is handed over unchanged; and it is called once when the
  guess has been resampled.
\<close>

theorem options_assembled:
  fixes self :: "('k::linorder, 'a::{plus,minus,times}, 'e, 'v, 'p) Transcription"
  assumes "getPluginOptions (m_solver self) \<noteq> []"
  shows "(\<forall>construction \<in> set (constructed (solve ext it ft self guessOrig)).
            (\<exists>options. construction =
                 (''nlp'', getOptimSolver (m_solver self), solve_nlp self, options)
               \<and> map_of options =
                   (map_of (getPluginOptions (m_solver self)))
                     (getOptimSolver (m_solver self) \<mapsto> Dict (getSolverOptions (m_solver self)))))
       \<and> (\<forall>guess. solve_guess ext it ft self guessOrig = Inr guess \<longrightarrow>
            length (constructed (solve ext it ft self guessOrig)) = 1)"
proof -
  have "map_of (solve_options (m_solver self)) =
      (map_of (getPluginOptions (m_solver self)))
        (getOptimSolver (m_solver self) \<mapsto> Dict (getSolverOptions (m_solver self)))"
    using assms by (simp add: solve_options_def update_conv')
  then show ?thesis
    using constructed_cases [of ext it ft self guessOrig] constructed_after_guess [of ext it ft self guessOrig]
    by auto
qed

theorem options_assembled_witness:
  "getPluginOptions (m_solver example_self) \<noteq> []
   \<and> constructed (solve example_collaborators 0 1 example_self example_guess) =
       [(''nlp'', ''ipopt'', solve_nlp example_self,
         [(''print_time'', Value ''false''), (''ipopt'', Dict [(''max_iter'', Value ''50'')])])]
   \<and> map_of [(''print_time'', Value ''false''), (''ipopt'', Dict [(''max_iter'', Value ''50'')])]
       = (map_of (getPluginOptions (m_solver example_self)))
           (getOptimSolver (m_solver example_self) \<mapsto>
              Dict (getSolverOptions (m_solver example_self)))"
proof -
  have h: "getPluginOptions (m_solver example_self) \<noteq> []"
    by (simp add: example_self_def)
  have member: "(''nlp'', ''ipopt'', solve_nlp example_self,
      [(''print_time'', Value ''false''), (''ipopt'', Dict [(''max_iter'', Value ''50'')])])
      \<in> set (constructed (solve example_collaborators 0 1 example_self example_guess))"
    by (simp only: example_constructed list.set insertI1)
  from options_assembled [OF h, of example_collaborators 0 1 example_guess]
  have "\<forall>construction \<in> set (constructed (solve example_collaborators 0 1 example_self example_guess)).
      (\<exists>options. construction =
           (''nlp'', getOptimSolver (m_solver example_self), solve_nlp example_self, options)
         \<and> map_of options =
             (map_of (getPluginOptions (m_solver example_self)))
               (getOptimSolver (m_solver example_self) \<mapsto>
                  Dict (getSolverOptions (m_solver example_self))))"
    by (rule conjunct1)
  from bspec [OF this member] obtain options where
    eq: "(''nlp'', ''ipopt'', solve_nlp example_self,
          [(''print_time'', Value ''false''), (''ipopt'', Dict [(''max_iter'', Value ''50'')])]) =
         (''nlp'', getOptimSolver (m_solver example_self), solve_nlp example_self, options)" and
    m: "map_of options =
         (map_of (getPluginOptions (m_solver example_self)))
           (getOptimSolver (m_solver example_self) \<mapsto>
              Dict (getSolverOptions (m_solver example_self)))"
    by (elim exE conjE)
  from eq have "[(''print_time'', Value ''false''), (''ipopt'', Dict [(''max_iter'', Value ''50'')])]
      = options"
    by (elim Pair_inject)
  with m
  have "map_of [(''print_time'', Value ''false''), (''ipopt'', Dict [(''max_iter'', Value ''50'')])]
      = (map_of (getPluginOptions (m_solver example_self)))
          (getOptimSolver (m_solver example_self) \<mapsto>
             Dict (getSolverOptions (m_solver example_self)))"
    by (simp only:)
  with h example_constructed show ?thesis
    by (intro conjI)
qed

subsection \<open>The object after \<^verbatim>\<open>solve\<close>\<close>

text \<open>
  Claim C9. \<^verbatim>\<open>solve\<close> leaves every member of the object as it was: after one call
  and after a second call with another guess the object is the one before the
  calls, and the second call does what it does on the object before the first.
\<close>

theorem solve_leaves_instance_unchanged:
  fixes self :: "('k::linorder, 'a::{plus,minus,times}, 'e, 'v, 'p) Transcription"
  shows "self_after (solve ext it ft self guess1) = self
       \<and> self_after (solve ext it ft (self_after (solve ext it ft self guess1)) guess2) = self
       \<and> solve ext it ft (self_after (solve ext it ft self guess1)) guess2 =
           solve ext it ft self guess2"
proof -
  have "self_after (solve ext it ft self guess) = self" for guess
    by (simp add: solve_def Let_def split: sum.splits prod.splits)
  then show ?thesis
    by simp
qed

theorem solve_leaves_instance_unchanged_witness:
  "self_after (solve example_collaborators 0 1 example_self example_guess) = example_self
   \<and> solve example_collaborators 0 1
        (self_after (solve example_collaborators 0 1 example_self example_guess))
        example_other_guess
       = solve example_collaborators 0 1 example_self example_other_guess
   \<and> outcome (solve example_collaborators 0 1 example_self example_guess) =
       Inr example_solution_value"
proof -
  note unchanged = solve_leaves_instance_unchanged [of example_collaborators 0 1 example_self
      example_guess example_other_guess]
  from unchanged have "self_after (solve example_collaborators 0 1 example_self example_guess) =
      example_self"
    by (rule conjunct1)
  moreover have "solve example_collaborators 0 1
      (self_after (solve example_collaborators 0 1 example_self example_guess))
      example_other_guess
      = solve example_collaborators 0 1 example_self example_other_guess"
    by (rule unchanged [THEN conjunct2, THEN conjunct2])
  ultimately show ?thesis
    using example_outcome by (intro conjI)
qed

end
